theory Spec2Isabelle
  imports Complex_Main "HOL-Library.Word"
begin

section \<open>Python values, errors and call traces\<close>

text \<open>
  The module \<^verbatim>\<open>arviz/plots/densityplot.py\<close> holds two functions: \<^verbatim>\<open>densityplot\<close>,
  which orchestrates a figure, and \<^verbatim>\<open>_d_helper\<close>, which renders one variable on one
  subplot. Every exception the Python can raise is a value of \<open>py_error\<close>; a collaborator
  imported from elsewhere in the package may raise any of them.
\<close>

datatype py_error =
    ValueError string
  | IndexError
  | TypeError
  | KeyError string
  | UnboundLocalError
  | Raised string

text \<open>
  A numpy scalar as \<^verbatim>\<open>hpd\<close> returns it, an element of the vector: an \<^verbatim>\<open>int64\<close> for an
  integer vector, whose arithmetic wraps around at 64 bits (\<open>sint\<close> reads its value), or a
  \<^verbatim>\<open>float64\<close> (idealised as a real).
\<close>

type_synonym int64 = "64 word"

datatype num = IntV int64 | FloatV real

fun num_val :: "num \<Rightarrow> real" where
  "num_val (IntV i) = real_of_int (sint i)"
| "num_val (FloatV r) = r"

text \<open>
  A flattened numpy array with its dtype, one constructor for each kind of dtype numpy
  has. \<open>dtype_kind\<close> is numpy's one-letter \<^verbatim>\<open>dtype.kind\<close>. Integers are \<^verbatim>\<open>int64\<close> and
  \<^verbatim>\<open>uint64\<close>, numpy's default widths; dates and durations are held as their counts, and
  objects, strings, bytes and records as their printed form.
\<close>

datatype ndarray =
    FloatArr "real list"
  | IntArr "int64 list"
  | UIntArr "64 word list"
  | BoolArr "bool list"
  | ComplexArr "complex list"
  | TimedeltaArr "int64 list"
  | DatetimeArr "int64 list"
  | ObjectArr "string list"
  | BytesArr "string list"
  | StrArr "string list"
  | VoidArr "string list"

fun dtype_kind :: "ndarray \<Rightarrow> char" where
  "dtype_kind (FloatArr _) = CHR ''f''"
| "dtype_kind (IntArr _) = CHR ''i''"
| "dtype_kind (UIntArr _) = CHR ''u''"
| "dtype_kind (BoolArr _) = CHR ''b''"
| "dtype_kind (ComplexArr _) = CHR ''c''"
| "dtype_kind (TimedeltaArr _) = CHR ''m''"
| "dtype_kind (DatetimeArr _) = CHR ''M''"
| "dtype_kind (ObjectArr _) = CHR ''O''"
| "dtype_kind (BytesArr _) = CHR ''S''"
| "dtype_kind (StrArr _) = CHR ''U''"
| "dtype_kind (VoidArr _) = CHR ''V''"

text \<open>
  The calls the module makes outside itself, in program order: the trace of a run. The
  natural number of \<open>EvConvert\<close>, \<open>EvBurnIn\<close>, \<open>EvVarIter\<close>, \<open>EvRender\<close> and
  \<open>EvLegendEntry\<close> is the position of the dataset; \<open>EvSubplots n\<close> is
  \<^verbatim>\<open>plt.subplots(n, 1, ...)\<close>, the creation of the figure.
\<close>

datatype event =
    EvConvert nat
  | EvBurnIn nat
  | EvVarIter nat
  | EvScaleText
  | EvSubplots nat
  | EvRender nat string
  | EvLegendEntry nat
  | EvLegend
  | EvTightLayout

type_synonym 'a traced = "event list \<times> (py_error + 'a)"

definition ret :: "'a \<Rightarrow> 'a traced" where
  "ret x = ([], Inr x)"

definition emit :: "event \<Rightarrow> unit traced" where
  "emit ev = ([ev], Inr ())"

definition lift :: "py_error + 'a \<Rightarrow> 'a traced" where
  "lift r = ([], r)"

text \<open>
  Sequencing: the second computation runs only when the first returned, and the trace of
  the whole is the two traces in order. An exception ends the run with the trace so far.
\<close>

definition bnd :: "'a traced \<Rightarrow> ('a \<Rightarrow> 'b traced) \<Rightarrow> 'b traced" where
  "bnd m f =
     (case m of
        (evs, Inl e) \<Rightarrow> (evs, Inl e)
      | (evs, Inr x) \<Rightarrow> (case f x of (evs', r) \<Rightarrow> (evs @ evs', r)))"

subsection \<open>Python built-ins\<close>

text \<open>\<^verbatim>\<open>str(n)\<close> of a non-negative integer, as the f-strings \<^verbatim>\<open>f'{idx}'\<close> format it.\<close>

definition digit_char :: "nat \<Rightarrow> char" where
  "digit_char d = ''0123456789'' ! d"

function str_nat :: "nat \<Rightarrow> string" where
  "str_nat n =
     (if n < 10 then [digit_char n] else str_nat (n div 10) @ [digit_char (n mod 10)])"
  by pat_completeness auto
termination
  by (relation "measure id") auto

declare str_nat.simps [simp del]

text \<open>\<^verbatim>\<open>xs[i]\<close> for an index that is not negative.\<close>

definition py_index :: "'a list \<Rightarrow> nat \<Rightarrow> py_error + 'a" where
  "py_index xs i = (if i < length xs then Inr (xs ! i) else Inl IndexError)"

text \<open>\<^verbatim>\<open>xs[0]\<close> and \<^verbatim>\<open>xs[-1]\<close>.\<close>

definition py_first :: "'a list \<Rightarrow> py_error + 'a" where
  "py_first xs = (case xs of [] \<Rightarrow> Inl IndexError | x # _ \<Rightarrow> Inr x)"

definition py_last :: "'a list \<Rightarrow> py_error + 'a" where
  "py_last xs = (case xs of [] \<Rightarrow> Inl IndexError | _ # _ \<Rightarrow> Inr (last xs))"

text \<open>\<^verbatim>\<open>range(a, b)\<close> over integers.\<close>

definition py_range :: "int \<Rightarrow> int \<Rightarrow> int list" where
  "py_range a b = [a..b - 1]"

text \<open>
  \<^verbatim>\<open>np.linspace(start, stop, n)\<close>, over the reals: \<open>n\<close> evenly spaced points, the first
  \<open>start\<close> and (for \<open>n > 1\<close>) the last \<open>stop\<close>.
\<close>

definition linspace :: "real \<Rightarrow> real \<Rightarrow> nat \<Rightarrow> real list" where
  "linspace start stop n =
     (if n = 1 then [start]
      else map (\<lambda>i. start + real i * ((stop - start) / real (n - 1))) [0..<n])"

text \<open>Boolean-mask indexing \<^verbatim>\<open>x[cut]\<close>.\<close>

definition mask_select :: "'a list \<Rightarrow> bool list \<Rightarrow> 'a list" where
  "mask_select xs msk = map fst (filter snd (zip xs msk))"

section \<open>The datasets and the burn-in filter\<close>

text \<open>
  An \<^verbatim>\<open>xarray.Dataset\<close> of posterior samples, seen along its \<^verbatim>\<open>draw\<close> dimension: one row
  per position, holding the draw coordinate and every value the data variables have
  there (over chains and the variables' own dimensions). A value carries the dtype of its
  variable: boolean, \<^verbatim>\<open>int64\<close> or \<^verbatim>\<open>float64\<close>; \<open>CNaN\<close> is the \<^verbatim>\<open>float64\<close> NaN, a missing
  value.
\<close>

datatype cell = CBool bool | CInt int64 | CFloat real | CNaN

record draw_row =
  draw :: int
  vals :: "cell list"

type_synonym dataset = "draw_row list"

text \<open>
  What \<^verbatim>\<open>where\<close> does to a value it keeps. The fill value is NaN, so the result of
  \<^verbatim>\<open>where\<close> is \<^verbatim>\<open>float64\<close> throughout: a boolean or integer variable is promoted, whether
  or not any of its values is replaced (an \<^verbatim>\<open>int64\<close> idealised as the real it denotes).
\<close>

fun promote :: "cell \<Rightarrow> cell" where
  "promote (CBool b) = CFloat (if b then 1 else 0)"
| "promote (CInt i) = CFloat (real_of_int (sint i))"
| "promote (CFloat r) = CFloat r"
| "promote CNaN = CNaN"

text \<open>
  \<^verbatim>\<open>data.where(data.draw >= skip_first)\<close>: a new dataset, with the values promoted at the
  positions where the condition holds and NaN at the others.
\<close>

definition xr_where_draw_ge :: "dataset \<Rightarrow> int \<Rightarrow> dataset" where
  "xr_where_draw_ge data skip_first =
     map (\<lambda>r. r\<lparr>vals := map (\<lambda>v. if draw r \<ge> skip_first then promote v else CNaN) (vals r)\<rparr>)
       data"

text \<open>
  \<^verbatim>\<open>.dropna('draw')\<close>: drops every position along \<^verbatim>\<open>draw\<close> where a value is missing
  (xarray's default \<^verbatim>\<open>how='any'\<close>); the result is a new dataset.
\<close>

definition xr_dropna_draw :: "dataset \<Rightarrow> dataset" where
  "xr_dropna_draw data = filter (\<lambda>r. list_all (\<lambda>v. v \<noteq> CNaN) (vals r)) data"

text \<open>One element of the list comprehension on line 67.\<close>

definition burn_in :: "dataset \<Rightarrow> int \<Rightarrow> dataset" where
  "burn_in data skip_first = xr_dropna_draw (xr_where_draw_ge data skip_first)"

fun burn_in_each :: "nat \<Rightarrow> dataset list \<Rightarrow> int \<Rightarrow> dataset list traced" where
  "burn_in_each i [] skip_first = ret []"
| "burn_in_each i (d # ds) skip_first =
     bnd (emit (EvBurnIn i)) (\<lambda>_.
     bnd (burn_in_each (Suc i) ds skip_first) (\<lambda>rest.
     ret (burn_in d skip_first # rest)))"

section \<open>The axes\<close>

text \<open>
  A matplotlib axes object is the list of the calls made on it, in order.
  \<^item> \<open>Line xs ys color ls lw\<close>: \<^verbatim>\<open>ax.plot(xs, ys, color=color, ls=ls, lw=lw)\<close>;
  \<^item> \<open>FillBetween xs ys where color a\<close>: \<^verbatim>\<open>ax.fill_between(xs, ys, where=where, color=color, alpha=a)\<close>;
  \<^item> \<open>HistStep v bins color\<close>: \<^verbatim>\<open>ax.hist(v, bins=bins, color=color, histtype='step', align='left')\<close>;
  \<^item> \<open>HistFilled v bins color a\<close>: \<^verbatim>\<open>ax.hist(v, bins=bins, color=color, alpha=a)\<close>;
  \<^item> \<open>Marker x y fmt color ms\<close>: \<^verbatim>\<open>ax.plot(x, y, fmt, color=color, markeredgecolor='k', markersize=ms)\<close>;
  \<^item> \<open>LegendEntry label c ms\<close>: \<^verbatim>\<open>ax.plot([], label=label, c=c, markersize=ms)\<close>;
  \<^item> \<open>Legend fs\<close>: \<^verbatim>\<open>ax.legend(fontsize=fs)\<close>.
\<close>

datatype ax_cmd =
    Line "real list" "real list" string "string option" real
  | FillBetween "real list" "real list" "bool list" string real
  | HistStep ndarray "int list" string
  | HistFilled ndarray "int list" string real
  | Marker real real string string real
  | SetYticks "real list"
  | SetTitle string
  | HideSpine string
  | TickParams real
  | LegendEntry string string real
  | Legend real

type_synonym ax = "ax_cmd list"

section \<open>The collaborators\<close>

text \<open>
  \<^verbatim>\<open>densityplot.py\<close> imports \<^verbatim>\<open>fast_kde\<close>, \<^verbatim>\<open>hpd\<close>, \<^verbatim>\<open>convert_to_xarray\<close>, \<^verbatim>\<open>_scale_text\<close>,
  \<^verbatim>\<open>make_label\<close> and \<^verbatim>\<open>xarray_var_iter\<close> from sibling modules, and calls \<^verbatim>\<open>np.mean\<close> and
  \<^verbatim>\<open>np.median\<close>. They are parameters of the model: any function of the right type, the
  fallible ones returning an exception as \<open>Inl\<close>. \<open>set_hash\<close> stands for the order in
  which Python iterates over the set \<^verbatim>\<open>all_labels\<close>, which the language leaves open.
  matplotlib's \<^verbatim>\<open>Axes.hist\<close> checks its arguments and raises on those it rejects (bins that
  hold no interval, an \<^verbatim>\<open>alpha\<close> outside \<open>[0, 1]\<close>): \<open>hist_raises\<close> gives the exception
  it raises on a call, if any.
  An array yielded by \<open>xarray_var_iter\<close> is held flattened, so \<^verbatim>\<open>values.flatten()\<close> is
  the array itself.
\<close>

type_synonym selection = "(string \<times> int) list"

type_synonym plotter = "string \<times> selection \<times> ndarray"

record 'raw env =
  convert_to_xarray :: "'raw \<Rightarrow> py_error + dataset"
  xarray_var_iter :: "dataset \<Rightarrow> string list option \<Rightarrow> py_error + plotter list"
  make_label :: "string \<Rightarrow> selection \<Rightarrow> string"
  scale_text :: "real \<times> real \<Rightarrow> real option \<Rightarrow> real \<times> real \<times> real"
  fast_kde :: "ndarray \<Rightarrow> real \<Rightarrow> py_error + (real list \<times> real \<times> real)"
  hpd :: "ndarray \<Rightarrow> real \<Rightarrow> py_error + (num \<times> num)"
  np_mean :: "ndarray \<Rightarrow> real"
  np_median :: "ndarray \<Rightarrow> real"
  set_hash :: "string \<Rightarrow> nat"
  hist_raises :: "ax_cmd \<Rightarrow> py_error option"

section \<open>The per-variable renderer\<close>

text \<open>
  Lines 148 to 164 of \<^verbatim>\<open>_d_helper\<close>, the branch of a floating-point vector. It returns
  \<^verbatim>\<open>xmin\<close>, \<^verbatim>\<open>xmax\<close> and the axes. \<^verbatim>\<open>x[cut][0]\<close> raises \<^verbatim>\<open>IndexError\<close> when no point of the
  domain lies in the interval.
\<close>

definition d_helper_kde ::
  "'raw env \<Rightarrow> ndarray \<Rightarrow> string \<Rightarrow> real \<Rightarrow> real \<Rightarrow> real \<Rightarrow> bool \<Rightarrow> real \<Rightarrow> ax
     \<Rightarrow> py_error + (real \<times> real \<times> ax)" where
  "d_helper_kde env vec color bw linewidth alpha outline shade ax =
     (case fast_kde env vec bw of
        Inl e \<Rightarrow> Inl e
      | Inr (density, lower, upper) \<Rightarrow>
          (let x = linspace lower upper (length density) in
           case hpd env vec alpha of
             Inl e \<Rightarrow> Inl e
           | Inr (hpd0, hpd1) \<Rightarrow>
               (let msk = map (\<lambda>xi. xi \<ge> num_val hpd0 \<and> xi \<le> num_val hpd1) x in
                case py_first (mask_select x msk) of
                  Inl e \<Rightarrow> Inl e
                | Inr xmin \<Rightarrow>
                (case py_last (mask_select x msk) of
                  Inl e \<Rightarrow> Inl e
                | Inr xmax \<Rightarrow>
                (case py_first (mask_select density msk) of
                  Inl e \<Rightarrow> Inl e
                | Inr ymin \<Rightarrow>
                (case py_last (mask_select density msk) of
                  Inl e \<Rightarrow> Inl e
                | Inr ymax \<Rightarrow>
                    (let ax1 =
                           (if outline
                            then ax @ [Line (mask_select x msk) (mask_select density msk) color None linewidth,
                                       Line [xmin, xmin] [- ymin / 100, ymin] color (Some ''-'') linewidth,
                                       Line [xmax, xmax] [- ymax / 100, ymax] color (Some ''-'') linewidth]
                            else ax);
                         ax2 =
                           (if shade \<noteq> 0
                            then ax1 @ [FillBetween x density msk color shade]
                            else ax1)
                     in Inr (xmin, xmax, ax2))))))))"

text \<open>A call of \<^verbatim>\<open>ax.hist\<close>: it raises, or the axes object holds one call more.\<close>

definition ax_hist :: "'raw env \<Rightarrow> ax \<Rightarrow> ax_cmd \<Rightarrow> py_error + ax" where
  "ax_hist env ax call =
     (case hist_raises env call of Some e \<Rightarrow> Inl e | None \<Rightarrow> Inr (ax @ [call]))"

text \<open>
  Lines 167 to 172, the branch of every other vector. \<^verbatim>\<open>xmax + 2\<close> is an addition of
  \<^verbatim>\<open>int64\<close> and wraps around; \<^verbatim>\<open>range\<close> takes the two bounds as Python integers and raises
  \<^verbatim>\<open>TypeError\<close> on a bound that is not an integer.
\<close>

definition d_helper_hist ::
  "'raw env \<Rightarrow> ndarray \<Rightarrow> string \<Rightarrow> real \<Rightarrow> bool \<Rightarrow> real \<Rightarrow> ax
     \<Rightarrow> py_error + (real \<times> real \<times> ax)" where
  "d_helper_hist env vec color alpha outline shade ax =
     (case hpd env vec alpha of
        Inl e \<Rightarrow> Inl e
      | Inr (IntV xmin, IntV xmax) \<Rightarrow>
          (let bins = py_range (sint xmin) (sint (xmax + 2)) in
           case (if outline then ax_hist env ax (HistStep vec bins color) else Inr ax) of
             Inl e \<Rightarrow> Inl e
           | Inr ax1 \<Rightarrow>
               (case (if shade \<noteq> 0 then ax_hist env ax1 (HistFilled vec bins color shade)
                      else Inr ax1) of
                  Inl e \<Rightarrow> Inl e
                | Inr ax2 \<Rightarrow> Inr (real_of_int (sint xmin), real_of_int (sint xmax), ax2)))
      | Inr _ \<Rightarrow> Inl TypeError)"

text \<open>
  Lines 178 to 183. A \<^verbatim>\<open>point_estimate\<close> that is neither \<^verbatim>\<open>'mean'\<close>, \<^verbatim>\<open>'median'\<close> nor
  \<^verbatim>\<open>None\<close> leaves \<^verbatim>\<open>est\<close> unbound.
\<close>

definition d_helper_estimate ::
  "'raw env \<Rightarrow> ndarray \<Rightarrow> string \<Rightarrow> real \<Rightarrow> string option \<Rightarrow> ax \<Rightarrow> py_error + ax" where
  "d_helper_estimate env vec color markersize point_estimate ax =
     (case point_estimate of
        None \<Rightarrow> Inr ax
      | Some pe \<Rightarrow>
          if pe = ''mean'' then Inr (ax @ [Marker (np_mean env vec) (- 0.001) ''o'' color markersize])
          else if pe = ''median'' then Inr (ax @ [Marker (np_median env vec) (- 0.001) ''o'' color markersize])
          else Inl UnboundLocalError)"

text \<open>
  Lines 174 to 189, what follows either branch: given what the branch gave (an exception,
  or \<^verbatim>\<open>xmin\<close>, \<^verbatim>\<open>xmax\<close> and the axes), the interval markers, the point estimate, the
  ticks, the title, the spines and the tick labels.
\<close>

definition d_helper_finish ::
  "'raw env \<Rightarrow> ndarray \<Rightarrow> string \<Rightarrow> string \<Rightarrow> real \<Rightarrow> real \<Rightarrow> string option \<Rightarrow> string
     \<Rightarrow> py_error + (real \<times> real \<times> ax) \<Rightarrow> py_error + ax" where
  "d_helper_finish env vec vname color textsize markersize point_estimate hpd_markers branch =
     (case branch of
        Inl e \<Rightarrow> Inl e
      | Inr (xmin, xmax, ax1) \<Rightarrow>
          (let ax2 =
                 (if hpd_markers \<noteq> []
                  then ax1 @ [Marker xmin 0 hpd_markers color markersize,
                              Marker xmax 0 hpd_markers color markersize]
                  else ax1)
           in case d_helper_estimate env vec color markersize point_estimate ax2 of
                Inl e \<Rightarrow> Inl e
              | Inr ax3 \<Rightarrow>
                  Inr (ax3 @ [SetYticks [], SetTitle vname, HideSpine ''left'',
                              HideSpine ''right'', HideSpine ''top'', TickParams textsize])))"

text \<open>\<^verbatim>\<open>_d_helper\<close>, lines 119 to 189.\<close>

definition d_helper ::
  "'raw env \<Rightarrow> ndarray \<Rightarrow> string \<Rightarrow> string \<Rightarrow> real \<Rightarrow> real \<Rightarrow> real \<Rightarrow> real \<Rightarrow> real
     \<Rightarrow> string option \<Rightarrow> string \<Rightarrow> bool \<Rightarrow> real \<Rightarrow> ax \<Rightarrow> py_error + ax" where
  "d_helper env vec vname color bw textsize linewidth markersize alpha point_estimate
       hpd_markers outline shade ax =
     (case (if dtype_kind vec = CHR ''f''
            then d_helper_kde env vec color bw linewidth alpha outline shade ax
            else d_helper_hist env vec color alpha outline shade ax) of
        Inl e \<Rightarrow> Inl e
      | Inr (xmin, xmax, ax1) \<Rightarrow>
          (let ax2 =
                 (if hpd_markers \<noteq> []
                  then ax1 @ [Marker xmin 0 hpd_markers color markersize,
                              Marker xmax 0 hpd_markers color markersize]
                  else ax1)
           in case d_helper_estimate env vec color markersize point_estimate ax2 of
                Inl e \<Rightarrow> Inl e
              | Inr ax3 \<Rightarrow>
                  Inr (ax3 @ [SetYticks [], SetTitle vname, HideSpine ''left'',
                              HideSpine ''right'', HideSpine ''top'', TickParams textsize])))"

text \<open>
  The calls by kind: those that draw a density curve or the area under it, those that
  draw a histogram, and those that build the legend.
\<close>

fun is_kde_cmd :: "ax_cmd \<Rightarrow> bool" where
  "is_kde_cmd (Line _ _ _ _ _) = True"
| "is_kde_cmd (FillBetween _ _ _ _ _) = True"
| "is_kde_cmd _ = False"

fun is_hist_cmd :: "ax_cmd \<Rightarrow> bool" where
  "is_hist_cmd (HistStep _ _ _) = True"
| "is_hist_cmd (HistFilled _ _ _ _) = True"
| "is_hist_cmd _ = False"

fun is_legend_cmd :: "ax_cmd \<Rightarrow> bool" where
  "is_legend_cmd (LegendEntry _ _ _) = True"
| "is_legend_cmd (Legend _) = True"
| "is_legend_cmd _ = False"

text \<open>
  A list of axes has grown into another when they are as many and each of the second
  holds the calls of the first followed by calls that do not build a legend.
\<close>

definition grown :: "ax list \<Rightarrow> ax list \<Rightarrow> bool" where
  "grown axes axes' \<longleftrightarrow>
     length axes' = length axes \<and>
     (\<forall>k < length axes. \<exists>new. axes' ! k = axes ! k @ new \<and> \<not> list_ex is_legend_cmd new)"

section \<open>The figure orchestrator\<close>

text \<open>
  The arguments of \<^verbatim>\<open>densityplot\<close>. \<^verbatim>\<open>data\<close> is one object or a list (or tuple) of them;
  \<^verbatim>\<open>colors\<close> is a string or a list.
\<close>

datatype 'raw data_arg = Single 'raw | Many "'raw list"

datatype colors_arg = ColorStr string | ColorList "string list"

record 'raw args =
  arg_data :: "'raw data_arg"
  arg_data_labels :: "string list option"
  arg_var_names :: "string list option"
  arg_alpha :: real
  arg_point_estimate :: "string option"
  arg_colors :: colors_arg
  arg_outline :: bool
  arg_hpd_markers :: string
  arg_shade :: real
  arg_bw :: real
  arg_figsize :: "(real \<times> real) option"
  arg_textsize :: "real option"
  arg_skip_first :: int

text \<open>The defaults of the signature, for a given \<^verbatim>\<open>data\<close>.\<close>

definition default_args :: "'raw data_arg \<Rightarrow> 'raw args" where
  "default_args d =
     \<lparr>arg_data = d, arg_data_labels = None, arg_var_names = None, arg_alpha = 0.05,
      arg_point_estimate = Some ''mean'', arg_colors = ColorStr ''cycle'', arg_outline = True,
      arg_hpd_markers = [], arg_shade = 0, arg_bw = 4.5, arg_figsize = None,
      arg_textsize = None, arg_skip_first = 0\<rparr>"

text \<open>Lines 63 to 66: every input is converted, in order.\<close>

fun convert_each :: "'raw env \<Rightarrow> nat \<Rightarrow> 'raw list \<Rightarrow> dataset list traced" where
  "convert_each env i [] = ret []"
| "convert_each env i (d # ds) =
     bnd (emit (EvConvert i)) (\<lambda>_.
     bnd (lift (convert_to_xarray env d)) (\<lambda>x.
     bnd (convert_each env (Suc i) ds) (\<lambda>xs.
     ret (x # xs))))"

definition convert_all :: "'raw env \<Rightarrow> 'raw data_arg \<Rightarrow> dataset list traced" where
  "convert_all env data =
     (case data of
        Single d \<Rightarrow> convert_each env 0 [d]
      | Many ds \<Rightarrow> convert_each env 0 ds)"

text \<open>Lines 69 and 70.\<close>

definition check_point_estimate :: "string option \<Rightarrow> py_error + unit" where
  "check_point_estimate point_estimate =
     (case point_estimate of
        None \<Rightarrow> Inr ()
      | Some pe \<Rightarrow>
          if pe = ''mean'' \<or> pe = ''median'' then Inr ()
          else Inl (ValueError (''Point estimate should be 'mean', 'median' or None, not '' @ pe)))"

text \<open>Lines 74 to 81.\<close>

definition resolve_labels :: "string list option \<Rightarrow> nat \<Rightarrow> py_error + string list" where
  "resolve_labels data_labels n_data =
     (case data_labels of
        None \<Rightarrow> Inr (if n_data > 1 then map str_nat [0..<n_data] else [''''])
      | Some ls \<Rightarrow>
          if length ls \<noteq> n_data
          then Inl (ValueError (''The number of names for the models ('' @ str_nat (length ls)
                 @ '') does not match the number of models ('' @ str_nat n_data @ '')''))
          else Inr ls)"

text \<open>Lines 83 to 86.\<close>

definition resolve_colors :: "colors_arg \<Rightarrow> nat \<Rightarrow> string list" where
  "resolve_colors colors n_data =
     (case colors of
        ColorStr s \<Rightarrow>
          if s = ''cycle'' then map (\<lambda>idx. ''C'' @ str_nat (idx mod 10)) [0..<n_data]
          else map (\<lambda>_. s) [0..<n_data]
      | ColorList cs \<Rightarrow> cs)"

text \<open>Line 88.\<close>

fun collect_plotters ::
  "'raw env \<Rightarrow> nat \<Rightarrow> dataset list \<Rightarrow> string list option \<Rightarrow> plotter list list traced" where
  "collect_plotters env i [] var_names = ret []"
| "collect_plotters env i (d # ds) var_names =
     bnd (emit (EvVarIter i)) (\<lambda>_.
     bnd (lift (xarray_var_iter env d var_names)) (\<lambda>p.
     bnd (collect_plotters env (Suc i) ds var_names) (\<lambda>ps.
     ret (p # ps))))"

text \<open>
  Lines 89 to 92: the set of the labels, as the list of its elements in the order in
  which Python iterates over it.
\<close>

definition plotter_label :: "'raw env \<Rightarrow> plotter \<Rightarrow> string" where
  "plotter_label env p = (case p of (var_name, selection, _) \<Rightarrow> make_label env var_name selection)"

definition label_set :: "'raw env \<Rightarrow> plotter list list \<Rightarrow> string list" where
  "label_set env to_plot =
     sort_key (set_hash env) (remdups (map (plotter_label env) (concat to_plot)))"

text \<open>
  Lines 103 to 106, the inner loop over one dataset's plotters. Python evaluates the
  arguments of the call from left to right: \<^verbatim>\<open>colors[m_idx]\<close> before \<^verbatim>\<open>axis_map[label]\<close>,
  and both before \<^verbatim>\<open>_d_helper\<close> runs.
\<close>

fun render_plotters ::
  "'raw env \<Rightarrow> 'raw args \<Rightarrow> string list \<Rightarrow> (string \<rightharpoonup> nat) \<Rightarrow> real \<Rightarrow> real \<Rightarrow> real
     \<Rightarrow> nat \<Rightarrow> plotter list \<Rightarrow> ax list \<Rightarrow> ax list traced" where
  "render_plotters env a colors axis_map textsize linewidth markersize m_idx [] axes = ret axes"
| "render_plotters env a colors axis_map textsize linewidth markersize m_idx (p # ps) axes =
     (case p of (var_name, selection, vs) \<Rightarrow>
        (let label = make_label env var_name selection in
         bnd (lift (py_index colors m_idx)) (\<lambda>color.
         bnd (lift (case axis_map label of None \<Rightarrow> Inl (KeyError label) | Some k \<Rightarrow> Inr k)) (\<lambda>k.
         bnd (emit (EvRender m_idx label)) (\<lambda>_.
         bnd (lift (d_helper env vs label color (arg_bw a) textsize linewidth markersize
                      (arg_alpha a) (arg_point_estimate a) (arg_hpd_markers a) (arg_outline a)
                      (arg_shade a) (axes ! k))) (\<lambda>ax'.
         render_plotters env a colors axis_map textsize linewidth markersize m_idx ps
           (axes[k := ax'])))))))"

text \<open>Line 102, the outer loop.\<close>

fun render_all ::
  "'raw env \<Rightarrow> 'raw args \<Rightarrow> string list \<Rightarrow> (string \<rightharpoonup> nat) \<Rightarrow> real \<Rightarrow> real \<Rightarrow> real
     \<Rightarrow> nat \<Rightarrow> plotter list list \<Rightarrow> ax list \<Rightarrow> ax list traced" where
  "render_all env a colors axis_map textsize linewidth markersize m_idx [] axes = ret axes"
| "render_all env a colors axis_map textsize linewidth markersize m_idx (plotters # rest) axes =
     bnd (render_plotters env a colors axis_map textsize linewidth markersize m_idx plotters axes)
       (\<lambda>axes1.
     render_all env a colors axis_map textsize linewidth markersize (Suc m_idx) rest axes1)"

text \<open>Lines 110 and 111.\<close>

fun legend_entries :: "string list \<Rightarrow> real \<Rightarrow> nat \<Rightarrow> string list \<Rightarrow> ax \<Rightarrow> ax traced" where
  "legend_entries colors markersize m_idx [] ax = ret ax"
| "legend_entries colors markersize m_idx (label # labels) ax =
     bnd (lift (py_index colors m_idx)) (\<lambda>c.
     bnd (emit (EvLegendEntry m_idx)) (\<lambda>_.
     legend_entries colors markersize (Suc m_idx) labels (ax @ [LegendEntry label c markersize])))"

text \<open>Lines 109 to 112. \<^verbatim>\<open>axes.flatten()[0]\<close> raises \<^verbatim>\<open>IndexError\<close> on a figure without panels.\<close>

definition add_legend :: "string list \<Rightarrow> string list \<Rightarrow> real \<Rightarrow> real \<Rightarrow> ax list \<Rightarrow> ax list traced" where
  "add_legend colors data_labels textsize markersize axes =
     bnd (lift (py_first axes)) (\<lambda>ax.
     bnd (legend_entries colors markersize 0 data_labels ax) (\<lambda>ax1.
     bnd (emit EvLegend) (\<lambda>_.
     ret (axes[0 := ax1 @ [Legend textsize]]))))"

text \<open>
  \<^verbatim>\<open>densityplot\<close>, lines 10 to 116. \<^verbatim>\<open>plt.subplots(n, 1, squeeze=False)\<close> gives \<open>n\<close> empty
  axes; the result is the trace of the run with either the exception raised or the
  axes returned.
\<close>

definition densityplot :: "'raw env \<Rightarrow> 'raw args \<Rightarrow> ax list traced" where
  "densityplot env a =
     bnd (convert_all env (arg_data a)) (\<lambda>converted.
     bnd (burn_in_each 0 converted (arg_skip_first a)) (\<lambda>datasets.
     bnd (lift (check_point_estimate (arg_point_estimate a))) (\<lambda>_.
     (let n_data = length datasets in
     bnd (lift (resolve_labels (arg_data_labels a) n_data)) (\<lambda>data_labels.
     (let colors = resolve_colors (arg_colors a) n_data in
     bnd (collect_plotters env 0 datasets (arg_var_names a)) (\<lambda>to_plot.
     (let all_labels = label_set env to_plot;
          figsize = (case arg_figsize a of
                       None \<Rightarrow> (6, real (length all_labels * 2))
                     | Some fs \<Rightarrow> fs) in
     bnd (emit EvScaleText) (\<lambda>_.
     (case scale_text env figsize (arg_textsize a) of (textsize, linewidth, markersize) \<Rightarrow>
     bnd (emit (EvSubplots (length all_labels))) (\<lambda>_.
     (let axes = replicate (length all_labels) [];
          axis_map = map_of (zip all_labels [0..<length all_labels]) in
     bnd (render_all env a colors axis_map textsize linewidth markersize 0 to_plot axes) (\<lambda>axes1.
     bnd (if n_data > 1 then add_legend colors data_labels textsize markersize axes1
          else ret axes1) (\<lambda>axes2.
     bnd (emit EvTightLayout) (\<lambda>_.
     ret axes2)))))))))))))))"

section \<open>Concrete inputs\<close>

text \<open>
  A dataset of three draws of one scalar floating-point variable, one with a missing
  value at the draw of coordinate 1, and one of four draws of an integer variable.
\<close>

definition ds_mu :: dataset where
  "ds_mu = [\<lparr>draw = 0, vals = [CFloat 1]\<rparr>, \<lparr>draw = 1, vals = [CFloat 2]\<rparr>,
            \<lparr>draw = 2, vals = [CFloat 3]\<rparr>]"

definition ds_nan :: dataset where
  "ds_nan = [\<lparr>draw = 0, vals = [CFloat 1]\<rparr>, \<lparr>draw = 1, vals = [CNaN]\<rparr>,
             \<lparr>draw = 2, vals = [CFloat 3]\<rparr>]"

definition ds_counts :: dataset where
  "ds_counts = [\<lparr>draw = 0, vals = [CInt 2]\<rparr>, \<lparr>draw = 1, vals = [CInt 3]\<rparr>,
                \<lparr>draw = 2, vals = [CInt 5]\<rparr>, \<lparr>draw = 3, vals = [CInt 7]\<rparr>]"

text \<open>
  The values of the one variable of such a dataset as an array of its dtype, and the
  mean and the median of an array's numbers.
\<close>

fun is_int_cell :: "cell \<Rightarrow> bool" where
  "is_int_cell (CInt _) = True"
| "is_int_cell _ = False"

fun int_of_cell :: "cell \<Rightarrow> int64" where
  "int_of_cell (CInt i) = i"
| "int_of_cell _ = 0"

fun real_of_cell :: "cell \<Rightarrow> real" where
  "real_of_cell (CBool b) = (if b then 1 else 0)"
| "real_of_cell (CInt i) = real_of_int (sint i)"
| "real_of_cell (CFloat r) = r"
| "real_of_cell CNaN = 0"

definition column_of :: "dataset \<Rightarrow> ndarray" where
  "column_of d =
     (let cs = concat (map (\<lambda>r. take 1 (vals r)) d)
      in if list_all is_int_cell cs then IntArr (map int_of_cell cs)
         else FloatArr (map real_of_cell cs))"

fun reals_of :: "ndarray \<Rightarrow> real list" where
  "reals_of (FloatArr xs) = xs"
| "reals_of (IntArr xs) = map (\<lambda>i. real_of_int (sint i)) xs"
| "reals_of (UIntArr xs) = map (\<lambda>i. real (unat i)) xs"
| "reals_of (BoolArr bs) = map (\<lambda>b. if b then 1 else 0) bs"
| "reals_of _ = []"

definition mean_of :: "real list \<Rightarrow> real" where
  "mean_of xs = sum_list xs / real (length xs)"

definition median_of :: "real list \<Rightarrow> real" where
  "median_of xs =
     (let s = sort xs; n = length s
      in if odd n then s ! (n div 2) else (s ! (n div 2 - 1) + s ! (n div 2)) / 2)"

text \<open>
  Collaborators that behave as the package's do on these data: the conversion returns a
  dataset as it is, the iterator yields the variable \<^verbatim>\<open>mu\<close> with its values, the credible
  interval is the whole range of the vector, the mean and the median are those of the
  vector, and \<^verbatim>\<open>ax.hist\<close> rejects bins without an interval and an \<^verbatim>\<open>alpha\<close> outside
  \<open>[0, 1]\<close>. The density estimate is a fixed curve of five points over \<open>[0, 4]\<close>.
\<close>

definition env_demo :: "dataset env" where
  "env_demo =
     \<lparr>convert_to_xarray = Inr,
      xarray_var_iter =
        (\<lambda>d var_names. if d = [] then Inr [] else Inr [(''mu'', [], column_of d)]),
      make_label = (\<lambda>var_name selection. var_name),
      scale_text = (\<lambda>figsize textsize. (14, 2, 8)),
      fast_kde = (\<lambda>v bw. Inr ([1, 2, 3, 2, 1], 0, 4)),
      hpd =
        (\<lambda>v alpha.
           case v of
             FloatArr (x # xs) \<Rightarrow> Inr (FloatV (fold min xs x), FloatV (fold max xs x))
           | IntArr (x # xs) \<Rightarrow>
               Inr (IntV (hd (sort_key sint (x # xs))), IntV (last (sort_key sint (x # xs))))
           | BoolArr (b # bs) \<Rightarrow>
               Inr (IntV (if list_all id (b # bs) then 1 else 0),
                    IntV (if list_ex id (b # bs) then 1 else 0))
           | _ \<Rightarrow> Inl (Raised ''hpd failed'')),
      np_mean = (\<lambda>v. mean_of (reals_of v)),
      np_median = (\<lambda>v. median_of (reals_of v)),
      set_hash = length,
      hist_raises =
        (\<lambda>call.
           case call of
             HistStep v bins c \<Rightarrow>
               if length bins < 2 then Some (ValueError ''bins'') else None
           | HistFilled v bins c a \<Rightarrow>
               if length bins < 2 then Some (ValueError ''bins'')
               else if a < 0 \<or> 1 < a then Some (ValueError ''alpha'')
               else None
           | _ \<Rightarrow> None)\<rparr>"

text \<open>The same collaborators, with a conversion that raises.\<close>

definition env_unconvertible :: "dataset env" where
  "env_unconvertible = env_demo\<lparr>convert_to_xarray := (\<lambda>_. Inl (Raised ''cannot convert''))\<rparr>"

text \<open>The same collaborators, with a credible interval that raises.\<close>

definition env_hpd_fails :: "dataset env" where
  "env_hpd_fails = env_demo\<lparr>hpd := (\<lambda>v alpha. Inl (Raised ''hpd failed''))\<rparr>"

text \<open>The same collaborators, with an \<^verbatim>\<open>ax.hist\<close> that takes whatever it is given.\<close>

definition env_any_hist :: "dataset env" where
  "env_any_hist = env_demo\<lparr>hist_raises := (\<lambda>call. None)\<rparr>"

section \<open>Properties\<close>

subsection \<open>Sequencing and the loops over the inputs\<close>

lemma bnd_lift_Inr [simp]: "bnd (lift (Inr x)) f = f x"
  by (simp add: bnd_def lift_def split: prod.splits)

lemma bnd_lift_Inl [simp]: "bnd (lift (Inl e)) f = ([], Inl e)"
  by (simp add: bnd_def lift_def)

lemma bnd_ret [simp]: "bnd (ret x) f = f x"
  by (simp add: bnd_def ret_def split: prod.splits)

lemma bnd_emit [simp]: "bnd (emit ev) f = (ev # fst (f ()), snd (f ()))"
  by (simp add: bnd_def emit_def split: prod.splits)

lemma bnd_pair_Inl [simp]: "bnd (evs, Inl e) f = (evs, Inl e)"
  by (simp add: bnd_def)

lemma bnd_pair_Inr [simp]: "bnd (evs, Inr x) f = (evs @ fst (f x), snd (f x))"
  by (simp add: bnd_def split: prod.splits)

lemma burn_in_each_eq:
  "burn_in_each i ds k = (map EvBurnIn [i..<i + length ds], Inr (map (\<lambda>d. burn_in d k) ds))"
proof (induction ds arbitrary: i)
  case Nil
  show ?case by (simp add: ret_def)
next
  case (Cons d ds)
  have "[i..<i + length (d # ds)] = i # [Suc i..<Suc i + length ds]"
    by (simp add: upt_rec)
  with Cons show ?case by (simp add: ret_def)
qed

lemma convert_each_ok:
  "convert_each env i xs = (evs, Inr ds) \<Longrightarrow>
     evs = map EvConvert [i..<i + length xs] \<and> length ds = length xs"
proof (induction xs arbitrary: i evs ds)
  case Nil
  then show ?case by (simp add: ret_def)
next
  case (Cons x xs)
  have u: "[i..<i + length (x # xs)] = i # [Suc i..<Suc i + length xs]"
    by (simp add: upt_rec)
  show ?case
  proof (cases "convert_to_xarray env x")
    case (Inl e)
    with Cons.prems show ?thesis by simp
  next
    case (Inr d)
    obtain evs' r where c: "convert_each env (Suc i) xs = (evs', r)" by fastforce
    show ?thesis
    proof (cases r)
      case (Inl e)
      with Cons.prems Inr c show ?thesis by simp
    next
      case (Inr ds')
      with Cons.prems \<open>convert_to_xarray env x = Inr d\<close> c
      have "evs = EvConvert i # evs'" "ds = d # ds'" by (simp_all add: ret_def)
      moreover from Cons.IH [of "Suc i" evs' ds'] c Inr
      have "evs' = map EvConvert [Suc i..<Suc i + length xs]" "length ds' = length xs" by simp_all
      ultimately show ?thesis using u by simp
    qed
  qed
qed

lemma convert_all_ok:
  "convert_all env data = (evs, Inr ds) \<Longrightarrow> evs = map EvConvert [0..<length ds]"
proof (cases data)
  case (Single x)
  assume "convert_all env data = (evs, Inr ds)"
  with Single have "convert_each env 0 [x] = (evs, Inr ds)" by (simp add: convert_all_def)
  from convert_each_ok [OF this] show ?thesis by simp
next
  case (Many xs)
  assume "convert_all env data = (evs, Inr ds)"
  with Many have "convert_each env 0 xs = (evs, Inr ds)" by (simp add: convert_all_def)
  from convert_each_ok [OF this] show ?thesis by simp
qed

subsection \<open>Validation of the point estimate\<close>

text \<open>
  Claim C1, as amended. A call whose \<^verbatim>\<open>point_estimate\<close> is neither \<^verbatim>\<open>'mean'\<close>, \<^verbatim>\<open>'median'\<close>
  nor \<^verbatim>\<open>None\<close> first converts every input and filters the burn-in of every dataset
  (lines 63 to 67), and only then raises the \<^verbatim>\<open>ValueError\<close> that names the value
  (lines 69 and 70): the trace at the exception holds the conversions and the burn-in
  filters and nothing else, so no labels are iterated, no text is scaled, no figure is
  created and nothing is drawn. When a conversion raises, that exception is the one the
  caller sees.
\<close>

theorem C1_invalid_point_estimate:
  assumes "arg_point_estimate a = Some pe" and "pe \<noteq> ''mean''" and "pe \<noteq> ''median''"
  shows "densityplot env a =
     (case convert_all env (arg_data a) of
        (evs, Inl e) \<Rightarrow> (evs, Inl e)
      | (evs, Inr converted) \<Rightarrow>
          (map EvConvert [0..<length converted] @ map EvBurnIn [0..<length converted],
           Inl (ValueError (''Point estimate should be 'mean', 'median' or None, not '' @ pe))))"
proof (cases "convert_all env (arg_data a)")
  case (Pair evs r)
  show ?thesis
  proof (cases r)
    case (Inl e)
    with Pair show ?thesis by (simp add: densityplot_def)
  next
    case (Inr converted)
    with Pair convert_all_ok have "evs = map EvConvert [0..<length converted]" by blast
    with Pair Inr assms show ?thesis
      by (simp add: densityplot_def burn_in_each_eq check_point_estimate_def)
  qed
qed

theorem C1_witness:
  "densityplot env_demo ((default_args (Many [ds_mu, ds_mu]))\<lparr>arg_point_estimate := Some ''mode''\<rparr>) =
     ([EvConvert 0, EvConvert 1, EvBurnIn 0, EvBurnIn 1],
      Inl (ValueError ''Point estimate should be 'mean', 'median' or None, not mode''))"
proof -
  let ?a = "(default_args (Many [ds_mu, ds_mu]))\<lparr>arg_point_estimate := Some ''mode''\<rparr>"
  have h1: "arg_point_estimate ?a = Some ''mode''" by simp
  have h2: "''mode'' \<noteq> ''mean''" and h3: "''mode'' \<noteq> ''median''" by simp_all
  have "(case convert_all env_demo (arg_data ?a) of
           (evs, Inl e) \<Rightarrow> (evs, Inl e)
         | (evs, Inr converted) \<Rightarrow>
             (map EvConvert [0..<length converted] @ map EvBurnIn [0..<length converted],
              Inl (ValueError (''Point estimate should be 'mean', 'median' or None, not '' @ ''mode'')))) =
        (([EvConvert 0, EvConvert 1, EvBurnIn 0, EvBurnIn 1],
          Inl (ValueError ''Point estimate should be 'mean', 'median' or None, not mode'')) :: ax list traced)"
    by code_simp
  with C1_invalid_point_estimate [OF h1 h2 h3, of env_demo] show ?thesis by simp
qed

text \<open>
  The claim as written has the exception raised before any computation, in particular
  before the datasets are converted or filtered. On one convertible dataset the trace at
  the exception already holds the conversion and the burn-in filter; on an input whose
  conversion raises, the call ends with the conversion's exception and the point
  estimate is never looked at.
\<close>

theorem C1_counterexample:
  "densityplot env_demo ((default_args (Single ds_mu))\<lparr>arg_point_estimate := Some ''mode''\<rparr>) =
     ([EvConvert 0, EvBurnIn 0],
      Inl (ValueError ''Point estimate should be 'mean', 'median' or None, not mode''))
   \<and> densityplot env_unconvertible ((default_args (Single ds_mu))\<lparr>arg_point_estimate := Some ''mode''\<rparr>) =
     ([EvConvert 0], Inl (Raised ''cannot convert''))"
  by code_simp

subsection \<open>Colours and labels\<close>

lemma str_nat_digit: "n < 10 \<Longrightarrow> str_nat n = [digit_char n]"
  by (simp add: str_nat.simps)

lemma palette_all:
  "list_all (\<lambda>d. ''C'' @ [digit_char d] =
      [''C0'', ''C1'', ''C2'', ''C3'', ''C4'', ''C5'', ''C6'', ''C7'', ''C8'', ''C9''] ! d) [0..<10]"
  by code_simp

lemma palette_entry:
  assumes "d < 10"
  shows "''C'' @ str_nat d =
     [''C0'', ''C1'', ''C2'', ''C3'', ''C4'', ''C5'', ''C6'', ''C7'', ''C8'', ''C9''] ! d"
proof -
  from assms have "d \<in> set [0..<10]" by simp
  with palette_all show ?thesis
    unfolding list_all_iff using assms by (simp add: str_nat_digit)
qed

text \<open>
  Claim C2. For \<open>n\<close> datasets, \<^verbatim>\<open>colors='cycle'\<close> resolves to the entries of the palette
  \<^verbatim>\<open>C0\<close> to \<^verbatim>\<open>C9\<close> at the dataset positions modulo 10; any other string resolves to \<open>n\<close>
  copies of itself; a list is taken as it is, whatever its length.
\<close>

theorem C2_colors_resolution:
  "resolve_colors (ColorStr ''cycle'') n =
     map (\<lambda>idx. [''C0'', ''C1'', ''C2'', ''C3'', ''C4'', ''C5'', ''C6'', ''C7'', ''C8'', ''C9'']
                   ! (idx mod 10)) [0..<n]
   \<and> (s \<noteq> ''cycle'' \<longrightarrow> resolve_colors (ColorStr s) n = replicate n s)
   \<and> resolve_colors (ColorList cs) n = cs"
proof (intro conjI impI)
  show "resolve_colors (ColorStr ''cycle'') n =
     map (\<lambda>idx. [''C0'', ''C1'', ''C2'', ''C3'', ''C4'', ''C5'', ''C6'', ''C7'', ''C8'', ''C9'']
                   ! (idx mod 10)) [0..<n]"
    unfolding resolve_colors_def by (simp add: palette_entry del: append.simps)
next
  assume "s \<noteq> ''cycle''"
  then show "resolve_colors (ColorStr s) n = replicate n s"
    unfolding resolve_colors_def by (simp add: map_replicate_const)
next
  show "resolve_colors (ColorList cs) n = cs"
    unfolding resolve_colors_def by simp
qed

theorem C2_witness:
  "resolve_colors (ColorStr ''cycle'') 12 =
     [''C0'', ''C1'', ''C2'', ''C3'', ''C4'', ''C5'', ''C6'', ''C7'', ''C8'', ''C9'', ''C0'', ''C1'']
   \<and> resolve_colors (ColorStr ''red'') 3 = [''red'', ''red'', ''red'']
   \<and> resolve_colors (ColorList [''k'']) 3 = [''k'']"
proof -
  have ne: "''red'' \<noteq> ''cycle''" by simp
  have u: "[0..<12] = [0, 1, 2, 3, 4, 5, 6, 7, 8, 9, 10, 11]" by code_simp
  have r: "replicate 3 ''red'' = [''red'', ''red'', ''red'']" by code_simp
  from C2_colors_resolution [of 12 "''red''" "[''k'']"]
       C2_colors_resolution [of 3 "''red''" "[''k'']"] ne
  show ?thesis by (simp add: u r)
qed

text \<open>
  Claim C3. With \<^verbatim>\<open>data_labels\<close> absent, the labels of \<open>n\<close> datasets are the decimal
  strings of \<open>0\<close> to \<open>n - 1\<close> when \<open>n > 1\<close>, and the one empty string otherwise (so for
  \<open>n = 1\<close>).
\<close>

theorem C3_synthesized_labels:
  "resolve_labels None n = Inr (if n > 1 then map str_nat [0..<n] else [''''])"
  unfolding resolve_labels_def by simp

theorem C3_witness:
  "resolve_labels None 3 = Inr [''0'', ''1'', ''2''] \<and> resolve_labels None 1 = Inr ['''']"
proof -
  have "map str_nat [0..<3] = [''0'', ''1'', ''2'']" by code_simp
  with C3_synthesized_labels [of 3] C3_synthesized_labels [of 1] show ?thesis by simp
qed

text \<open>
  Claim C4. A call on \<open>n\<close> datasets (the inputs converted to \<open>n\<close> datasets) with a
  \<^verbatim>\<open>data_labels\<close> list of another length raises a \<^verbatim>\<open>ValueError\<close>: the one of the point
  estimate when that is invalid too, the one that names both lengths otherwise. The trace
  at the exception holds the conversions and the burn-in filters only: no figure has
  been created.
\<close>

theorem C4_label_count_mismatch:
  assumes "snd (convert_all env (arg_data a)) = Inr converted"
    and "arg_data_labels a = Some ls"
    and "length ls \<noteq> length converted"
  shows "densityplot env a =
     (map EvConvert [0..<length converted] @ map EvBurnIn [0..<length converted],
      case check_point_estimate (arg_point_estimate a) of
        Inl e \<Rightarrow> Inl e
      | Inr _ \<Rightarrow>
          Inl (ValueError (''The number of names for the models ('' @ str_nat (length ls)
                 @ '') does not match the number of models ('' @ str_nat (length converted) @ '')'')))"
proof -
  obtain evs where c: "convert_all env (arg_data a) = (evs, Inr converted)"
    using assms(1) by (cases "convert_all env (arg_data a)") simp
  with convert_all_ok have "evs = map EvConvert [0..<length converted]" by blast
  with c assms(2,3) show ?thesis
    by (cases "check_point_estimate (arg_point_estimate a)")
       (simp_all add: densityplot_def burn_in_each_eq resolve_labels_def)
qed

theorem C4_witness:
  "densityplot env_demo ((default_args (Many [ds_mu, ds_mu]))\<lparr>arg_data_labels := Some [''a'']\<rparr>) =
     ([EvConvert 0, EvConvert 1, EvBurnIn 0, EvBurnIn 1],
      Inl (ValueError ''The number of names for the models (1) does not match the number of models (2)''))"
proof -
  let ?a = "(default_args (Many [ds_mu, ds_mu]))\<lparr>arg_data_labels := Some [''a'']\<rparr>"
  have h1: "snd (convert_all env_demo (arg_data ?a)) = Inr [ds_mu, ds_mu]" by code_simp
  have h2: "arg_data_labels ?a = Some [''a'']" by simp
  have h3: "length [''a''] \<noteq> length [ds_mu, ds_mu]" by simp
  have "(map EvConvert [0..<length [ds_mu, ds_mu]] @ map EvBurnIn [0..<length [ds_mu, ds_mu]],
         case check_point_estimate (arg_point_estimate ?a) of
           Inl e \<Rightarrow> Inl e
         | Inr _ \<Rightarrow>
             Inl (ValueError (''The number of names for the models ('' @ str_nat (length [''a''])
                    @ '') does not match the number of models ('' @ str_nat (length [ds_mu, ds_mu]) @ '')''))) =
        (([EvConvert 0, EvConvert 1, EvBurnIn 0, EvBurnIn 1],
          Inl (ValueError ''The number of names for the models (1) does not match the number of models (2)'')) :: ax list traced)"
    by code_simp
  with C4_label_count_mismatch [OF h1 h2 h3] show ?thesis by simp
qed

subsection \<open>The per-variable renderer\<close>

lemma py_range_set: "set (py_range a b) = {a..<b}"
  by (auto simp: py_range_def)

lemma py_range_length: "length (py_range a b) = nat (b - a)"
  by (simp add: py_range_def)

lemma py_range_nth: "i < length (py_range a b) \<Longrightarrow> py_range a b ! i = a + int i"
  by (simp add: py_range_def)

lemma py_range_unit: "Suc i < length (py_range a b) \<Longrightarrow> py_range a b ! Suc i = py_range a b ! i + 1"
  by (simp add: py_range_nth)

lemma d_helper_estimate_cases:
  "d_helper_estimate env vec color markersize pe ax = Inr ax3 \<Longrightarrow>
     \<exists>est. ax3 = ax @ est \<and> \<not> list_ex is_hist_cmd est \<and> \<not> list_ex is_kde_cmd est
        \<and> \<not> list_ex is_legend_cmd est"
  by (auto simp: d_helper_estimate_def split: option.splits if_splits)

lemma d_helper_estimate_valid:
  "pe \<in> {None, Some ''mean'', Some ''median''} \<Longrightarrow>
     \<exists>ax3. d_helper_estimate env vec color markersize pe ax = Inr ax3"
  by (auto simp: d_helper_estimate_def)

lemma sint_plus_2:
  assumes "sint (u :: int64) \<le> 9223372036854775805"
  shows "sint (u + 2) = sint u + 2"
proof -
  have "- (2 ^ 63) \<le> sint u" using sint_ge [of u] by simp
  with assms have "- (2 ^ 63) \<le> sint u + 2" "sint u + 2 < 2 ^ 63" by simp_all
  then have "signed_take_bit 63 (sint u + 2) = sint u + 2"
    by (rule signed_take_bit_int_eq_self)
  then show ?thesis by (simp add: sint_word_add)
qed

lemma d_helper_hist_eq:
  assumes "hpd env vec alpha = Inr (IntV lower, IntV upper)"
  shows "d_helper_hist env vec color alpha outline shade ax =
     (case (if outline
            then ax_hist env ax (HistStep vec (py_range (sint lower) (sint (upper + 2))) color)
            else Inr ax) of
        Inl e \<Rightarrow> Inl e
      | Inr ax1 \<Rightarrow>
          (case (if shade \<noteq> 0
                 then ax_hist env ax1
                        (HistFilled vec (py_range (sint lower) (sint (upper + 2))) color shade)
                 else Inr ax1) of
             Inl e \<Rightarrow> Inl e
           | Inr ax2 \<Rightarrow> Inr (real_of_int (sint lower), real_of_int (sint upper), ax2)))"
  using assms by (simp add: d_helper_hist_def Let_def)

lemma ax_hist_Inr: "ax_hist env ax call = Inr ax1 \<Longrightarrow> ax1 = ax @ [call]"
  by (auto simp: ax_hist_def split: option.splits)

lemma d_helper_hist_Inr:
  assumes "hpd env vec alpha = Inr (IntV lower, IntV upper)"
    and "d_helper_hist env vec color alpha outline shade ax = Inr (xmin, xmax, ax1)"
  shows "ax1 = ax @ (if outline
                     then [HistStep vec (py_range (sint lower) (sint (upper + 2))) color] else [])
                  @ (if shade \<noteq> 0
                     then [HistFilled vec (py_range (sint lower) (sint (upper + 2))) color shade]
                     else [])"
  using assms(2) unfolding d_helper_hist_eq [OF assms(1)]
  by (auto split: sum.splits if_splits dest!: ax_hist_Inr)

lemma d_helper_hist_shape:
  "d_helper_hist env vec color alpha outline shade ax = Inr (xmin, xmax, ax1) \<Longrightarrow>
     \<exists>drawn. ax1 = ax @ drawn \<and> list_all is_hist_cmd drawn \<and> (outline \<or> shade \<noteq> 0 \<longrightarrow> drawn \<noteq> [])"
  by (auto simp: d_helper_hist_def Let_def split: sum.splits num.splits if_splits
           dest!: ax_hist_Inr)

lemma d_helper_after_branch:
  assumes "(if dtype_kind vec = CHR ''f''
            then d_helper_kde env vec color bw linewidth alpha outline shade ax
            else d_helper_hist env vec color alpha outline shade ax) = Inr (xmin, xmax, ax1)"
    and "d_helper env vec vname color bw textsize linewidth markersize alpha point_estimate
           hpd_markers outline shade ax = Inr ax'"
  shows "\<exists>rest. ax' = ax1 @ rest \<and> \<not> list_ex is_hist_cmd rest \<and> \<not> list_ex is_kde_cmd rest
           \<and> \<not> list_ex is_legend_cmd rest"
proof -
  let ?ax2 = "if hpd_markers \<noteq> []
              then ax1 @ [Marker xmin 0 hpd_markers color markersize,
                          Marker xmax 0 hpd_markers color markersize]
              else ax1"
  from assms obtain ax3 where
    e: "d_helper_estimate env vec color markersize point_estimate ?ax2 = Inr ax3" and
    r: "ax' = ax3 @ [SetYticks [], SetTitle vname, HideSpine ''left'', HideSpine ''right'',
                     HideSpine ''top'', TickParams textsize]"
    by (auto simp: d_helper_def Let_def split: sum.splits)
  from d_helper_estimate_cases [OF e] obtain est where
    "ax3 = ?ax2 @ est" "\<not> list_ex is_hist_cmd est" "\<not> list_ex is_kde_cmd est"
    "\<not> list_ex is_legend_cmd est" by blast
  with r show ?thesis by (cases "hpd_markers = []") auto
qed

lemma mask_select_map: "mask_select xs (map P xs) = filter P xs"
  unfolding mask_select_def by (induction xs) auto

lemma py_first_Inr: "py_first xs = Inr y \<longleftrightarrow> xs \<noteq> [] \<and> y = hd xs"
  by (cases xs) (auto simp: py_first_def)

lemma py_last_Inr: "py_last xs = Inr y \<longleftrightarrow> xs \<noteq> [] \<and> y = last xs"
  by (cases xs) (auto simp: py_last_def)

lemma linspace_bounds:
  assumes "p \<in> set (linspace start stop n)"
  shows "min start stop \<le> p \<and> p \<le> max start stop"
proof (cases "n = 1")
  case True
  with assms show ?thesis by (simp add: linspace_def)
next
  case False
  with assms obtain i where i: "i < n" and p: "p = start + real i * ((stop - start) / real (n - 1))"
    by (auto simp: linspace_def)
  from i False have n: "1 < n" by simp
  define t where "t = real i / real (n - 1)"
  from i n have t: "0 \<le> t" "t \<le> 1" by (simp_all add: t_def)
  have pt: "p = start + t * (stop - start)" by (simp add: p t_def)
  show ?thesis
  proof (cases "start \<le> stop")
    case True
    with t have "0 \<le> t * (stop - start)" "t * (stop - start) \<le> stop - start"
      by (simp_all add: mult_left_le_one_le)
    with True pt show ?thesis by simp
  next
    case False
    with t have "t * (stop - start) \<le> 0" "(1 - t) * (stop - start) \<le> 0"
      by (simp_all add: mult_nonneg_nonpos)
    with False pt show ?thesis by (simp add: algebra_simps)
  qed
qed

lemma linspace_sorted:
  assumes "start \<le> stop"
  shows "sorted (linspace start stop n)"
proof (cases "n = 1")
  case True
  then show ?thesis by (simp add: linspace_def)
next
  case False
  have c: "0 \<le> (stop - start) / real (n - 1)" using assms by simp
  have m: "start + real x * ((stop - start) / real (n - 1))
             \<le> start + real y * ((stop - start) / real (n - 1))" if "x \<le> y" for x y :: nat
  proof -
    from that have "real x \<le> real y" by simp
    from mult_right_mono [OF this c] show ?thesis by simp
  qed
  have "sorted (map (\<lambda>i. start + real i * ((stop - start) / real (n - 1))) [0..<n])"
    unfolding sorted_map
    by (rule sorted_wrt_mono_rel [OF _ sorted_upt [of 0 n]]) (rule m)
  with False show ?thesis by (simp add: linspace_def)
qed

lemma d_helper_kde_Inr:
  assumes "fast_kde env vec bw = Inr (density, lower, upper)"
    and "hpd env vec alpha = Inr (hpd0, hpd1)"
    and "d_helper_kde env vec color bw linewidth alpha outline shade ax = Inr (xmin, xmax, ax')"
  shows "\<exists>ys ymin ymax.
     filter (\<lambda>xi. num_val hpd0 \<le> xi \<and> xi \<le> num_val hpd1) (linspace lower upper (length density)) \<noteq> []
   \<and> xmin = hd (filter (\<lambda>xi. num_val hpd0 \<le> xi \<and> xi \<le> num_val hpd1) (linspace lower upper (length density)))
   \<and> xmax = last (filter (\<lambda>xi. num_val hpd0 \<le> xi \<and> xi \<le> num_val hpd1) (linspace lower upper (length density)))
   \<and> ax' = ax @ (if outline
                 then [Line (filter (\<lambda>xi. num_val hpd0 \<le> xi \<and> xi \<le> num_val hpd1) (linspace lower upper (length density))) ys color None linewidth,
                       Line [xmin, xmin] [- ymin / 100, ymin] color (Some ''-'') linewidth,
                       Line [xmax, xmax] [- ymax / 100, ymax] color (Some ''-'') linewidth]
                 else [])
              @ (if shade \<noteq> 0
                 then [FillBetween (linspace lower upper (length density)) density
                         (map (\<lambda>xi. num_val hpd0 \<le> xi \<and> xi \<le> num_val hpd1) (linspace lower upper (length density)))
                         color shade]
                 else [])"
  using assms
  by (auto simp: d_helper_kde_def Let_def mask_select_map py_first_Inr py_last_Inr
           split: sum.splits)


lemma hd_le_last_sorted:
  assumes "sorted xs" and "xs \<noteq> []"
  shows "hd xs \<le> last (xs :: real list)"
proof (cases xs)
  case Nil
  with assms show ?thesis by simp
next
  case (Cons a as)
  with assms show ?thesis by (cases "as = []") auto
qed

text \<open>
  Claim C8. For a floating-point vector, let \<open>x\<close> be the evenly spaced domain of the
  density estimate, \<^verbatim>\<open>np.linspace(lower, upper, len(density))\<close>, and \<open>restricted\<close> the
  restricted domain \<^verbatim>\<open>x[cut]\<close>. Whenever the continuous branch returns, \<open>restricted\<close> holds
  the points of \<open>x\<close> inside the credible interval, in order, so it is a subset of \<open>x\<close>;
  every point of \<open>x\<close> lies between \<open>lower\<close> and \<open>upper\<close>; \<open>restricted\<close> is not empty, and the
  rendered bounds \<^verbatim>\<open>xmin\<close> and \<^verbatim>\<open>xmax\<close> are its first and last points: points of \<open>x\<close>, inside
  the credible interval, and for \<open>lower \<le> upper\<close> ordered and inside \<open>[lower, upper]\<close>. With
  \<^verbatim>\<open>outline\<close> the curve is drawn over \<open>restricted\<close>, and what \<^verbatim>\<open>_d_helper\<close> returns for a
  floating-point vector extends the axes of this branch. Floats are idealised as reals.
\<close>

theorem C8_restricted_domain:
  assumes "fast_kde env vec bw = Inr (density, lower, upper)"
    and "hpd env vec alpha = Inr (hpd0, hpd1)"
    and "d_helper_kde env vec color bw linewidth alpha outline shade ax = Inr (xmin, xmax, ax')"
  shows "let x = linspace lower upper (length density);
             restricted = mask_select x (map (\<lambda>xi. xi \<ge> num_val hpd0 \<and> xi \<le> num_val hpd1) x)
         in restricted = filter (\<lambda>xi. num_val hpd0 \<le> xi \<and> xi \<le> num_val hpd1) x
          \<and> set restricted \<subseteq> set x
          \<and> (\<forall>p \<in> set x. min lower upper \<le> p \<and> p \<le> max lower upper)
          \<and> restricted \<noteq> [] \<and> xmin = hd restricted \<and> xmax = last restricted
          \<and> xmin \<in> set x \<and> xmax \<in> set x
          \<and> num_val hpd0 \<le> xmin \<and> xmin \<le> num_val hpd1
          \<and> num_val hpd0 \<le> xmax \<and> xmax \<le> num_val hpd1
          \<and> (lower \<le> upper \<longrightarrow> lower \<le> xmin \<and> xmin \<le> xmax \<and> xmax \<le> upper)
          \<and> (outline \<longrightarrow> (\<exists>ys rest. ax' = ax @ Line restricted ys color None linewidth # rest))
          \<and> (dtype_kind vec = CHR ''f'' \<longrightarrow>
                (\<forall>ax''. d_helper env vec vname color bw textsize linewidth markersize alpha
                           point_estimate hpd_markers outline shade ax = Inr ax''
                   \<longrightarrow> (\<exists>rest. ax'' = ax' @ rest)))"
proof -
  let ?x = "linspace lower upper (length density)"
  let ?P = "\<lambda>xi. num_val hpd0 \<le> xi \<and> xi \<le> num_val hpd1"
  let ?r = "filter ?P ?x"
  have eq: "mask_select ?x (map (\<lambda>xi. xi \<ge> num_val hpd0 \<and> xi \<le> num_val hpd1) ?x) = ?r"
    by (rule mask_select_map)
  from d_helper_kde_Inr [OF assms] obtain ys ymin ymax where
    ne: "?r \<noteq> []" and xmin: "xmin = hd ?r" and xmax: "xmax = last ?r" and
    ax': "ax' = ax @ (if outline
                 then [Line ?r ys color None linewidth,
                       Line [xmin, xmin] [- ymin / 100, ymin] color (Some ''-'') linewidth,
                       Line [xmax, xmax] [- ymax / 100, ymax] color (Some ''-'') linewidth]
                 else [])
              @ (if shade \<noteq> 0
                 then [FillBetween ?x density (map ?P ?x) color shade]
                 else [])"
    by blast
  have sub: "set ?r \<subseteq> set ?x" by simp
  have bounds: "\<forall>p \<in> set ?x. min lower upper \<le> p \<and> p \<le> max lower upper"
    using linspace_bounds by blast
  from ne xmin have in_min: "xmin \<in> set ?r" by (metis hd_in_set)
  from ne xmax have in_max: "xmax \<in> set ?r" by (metis last_in_set)
  from in_min in_max have inx: "xmin \<in> set ?x" "xmax \<in> set ?x" by simp_all
  from in_min in_max have hp: "num_val hpd0 \<le> xmin" "xmin \<le> num_val hpd1"
    "num_val hpd0 \<le> xmax" "xmax \<le> num_val hpd1" by simp_all
  have ord: "lower \<le> xmin \<and> xmin \<le> xmax \<and> xmax \<le> upper" if lu: "lower \<le> upper"
  proof -
    from linspace_sorted [OF lu] have "sorted ?r" by (rule sorted_wrt_filter)
    from hd_le_last_sorted [OF this ne] xmin xmax have "xmin \<le> xmax" by simp
    moreover from bounds inx lu have "lower \<le> xmin" "xmax \<le> upper" by auto
    ultimately show ?thesis by simp
  qed
  have line: "\<exists>ys rest. ax' = ax @ Line ?r ys color None linewidth # rest" if outline
    using ax' that by auto
  have cont: "\<exists>rest. ax'' = ax' @ rest"
    if f: "dtype_kind vec = CHR ''f''" and
       ok: "d_helper env vec vname color bw textsize linewidth markersize alpha
              point_estimate hpd_markers outline shade ax = Inr ax''" for ax''
  proof -
    from f assms(3) have "(if dtype_kind vec = CHR ''f''
            then d_helper_kde env vec color bw linewidth alpha outline shade ax
            else d_helper_hist env vec color alpha outline shade ax) = Inr (xmin, xmax, ax')"
      by simp
    from d_helper_after_branch [OF this ok] show ?thesis by blast
  qed
  show ?thesis
    unfolding Let_def eq
    using sub bounds ne xmin xmax inx hp ord line cont by blast
qed


theorem C8_witness:
  "d_helper_kde env_demo (FloatArr [1, 2, 3]) ''C0'' 4.5 2 0.05 True 0 [] =
     Inr (1, 3, [Line [1, 2, 3] [2, 3, 2] ''C0'' None 2,
                 Line [1, 1] [- 2 / 100, 2] ''C0'' (Some ''-'') 2,
                 Line [3, 3] [- 2 / 100, 2] ''C0'' (Some ''-'') 2])
   \<and> 1 \<in> set (linspace 0 4 5) \<and> 3 \<in> set (linspace 0 4 5)
   \<and> (0::real) \<le> 1 \<and> (3::real) \<le> 4"
proof -
  have h1: "fast_kde env_demo (FloatArr [1, 2, 3]) 4.5 = Inr ([1, 2, 3, 2, 1], 0, 4)"
    by (simp add: env_demo_def)
  have h2: "hpd env_demo (FloatArr [1, 2, 3]) 0.05 = Inr (FloatV 1, FloatV 3)"
    by code_simp
  have h3: "d_helper_kde env_demo (FloatArr [1, 2, 3]) ''C0'' 4.5 2 0.05 True 0 [] =
     Inr (1, 3, [Line [1, 2, 3] [2, 3, 2] ''C0'' None 2,
                 Line [1, 1] [- 2 / 100, 2] ''C0'' (Some ''-'') 2,
                 Line [3, 3] [- 2 / 100, 2] ''C0'' (Some ''-'') 2])"
    by code_simp
  have le: "(0::real) \<le> 4" by simp
  have len: "length [1, 2, 3, 2, 1::real] = 5" by simp
  from C8_restricted_domain [OF h1 h2 h3, unfolded Let_def len] le
  have "1 \<in> set (linspace 0 4 5)" "3 \<in> set (linspace 0 4 5)"
       "(0::real) \<le> 1" "(3::real) \<le> 4"
    by blast+
  with h3 show ?thesis by blast
qed

lemma d_helper_kde_shape:
  "d_helper_kde env vec color bw linewidth alpha outline shade ax = Inr (xmin, xmax, ax1) \<Longrightarrow>
     \<exists>drawn. ax1 = ax @ drawn \<and> list_all is_kde_cmd drawn \<and> (outline \<or> shade \<noteq> 0 \<longrightarrow> drawn \<noteq> [])"
  by (auto simp: d_helper_kde_def Let_def split: sum.splits if_splits)

lemma d_helper_branch_Inr:
  assumes "d_helper env vec vname color bw textsize linewidth markersize alpha point_estimate
             hpd_markers outline shade ax = Inr ax'"
  shows "\<exists>xmin xmax ax1.
     (if dtype_kind vec = CHR ''f''
      then d_helper_kde env vec color bw linewidth alpha outline shade ax
      else d_helper_hist env vec color alpha outline shade ax) = Inr (xmin, xmax, ax1)"
  using assms unfolding d_helper_def by (auto split: sum.splits)

text \<open>
  Claim C6, as amended. For a vector that is not floating-point and \<^verbatim>\<open>int64\<close> bounds
  \<open>lower\<close> and \<open>upper\<close> of its credible interval, with \<open>upper\<close> at most \<open>2\<^sup>6\<^sup>3 - 3\<close> so that
  \<^verbatim>\<open>upper + 2\<close> does not wrap around, the histogram bins are
  \<^verbatim>\<open>range(lower, upper + 2)\<close>: the integers from \<open>lower\<close> to \<open>upper + 1\<close>, each one more
  than the one before, that is the integers of \<open>[lower, upper + 2)\<close>. The branch calls
  \<^verbatim>\<open>ax.hist\<close> over these bins, for the outline first and for the filled histogram after
  it, and an exception of either call is the exception of the branch. When the renderer
  returns, the histograms it has drawn are these, and it has drawn no other.
\<close>

theorem C6_histogram_bins:
  assumes "dtype_kind vec \<noteq> CHR ''f''"
    and "hpd env vec alpha = Inr (IntV lower, IntV upper)"
    and "sint upper \<le> 9223372036854775805"
  shows "let bins = py_range (sint lower) (sint (upper + 2));
             drawn = (if outline then [HistStep vec bins color] else [])
                   @ (if shade \<noteq> 0 then [HistFilled vec bins color shade] else [])
         in bins = [sint lower..sint upper + 1] \<and> set bins = {sint lower..<sint upper + 2}
          \<and> (\<forall>i. Suc i < length bins \<longrightarrow> bins ! Suc i = bins ! i + 1)
          \<and> d_helper_hist env vec color alpha outline shade ax =
               (case (if outline then ax_hist env ax (HistStep vec bins color) else Inr ax) of
                  Inl e \<Rightarrow> Inl e
                | Inr ax1 \<Rightarrow>
                    (case (if shade \<noteq> 0 then ax_hist env ax1 (HistFilled vec bins color shade)
                           else Inr ax1) of
                       Inl e \<Rightarrow> Inl e
                     | Inr ax2 \<Rightarrow> Inr (real_of_int (sint lower), real_of_int (sint upper), ax2)))
          \<and> (\<forall>ax'. d_helper env vec vname color bw textsize linewidth markersize alpha
                       point_estimate hpd_markers outline shade ax = Inr ax'
                 \<longrightarrow> (\<exists>rest. ax' = ax @ drawn @ rest \<and> \<not> list_ex is_hist_cmd rest))"
proof -
  let ?bins = "py_range (sint lower) (sint (upper + 2))"
  let ?drawn = "(if outline then [HistStep vec ?bins color] else [])
              @ (if shade \<noteq> 0 then [HistFilled vec ?bins color shade] else [])"
  from sint_plus_2 [OF assms(3)] have w: "sint (upper + 2) = sint upper + 2" .
  have 1: "?bins = [sint lower..sint upper + 1]" by (simp add: py_range_def w add.commute)
  have 2: "set ?bins = {sint lower..<sint upper + 2}" unfolding w by (rule py_range_set)
  have 3: "\<forall>i. Suc i < length ?bins \<longrightarrow> ?bins ! Suc i = ?bins ! i + 1"
    using py_range_unit by blast
  note 4 = d_helper_hist_eq [OF assms(2), of color outline shade ax]
  have 5: "\<exists>rest. ax' = ax @ ?drawn @ rest \<and> \<not> list_ex is_hist_cmd rest"
    if ok: "d_helper env vec vname color bw textsize linewidth markersize alpha
          point_estimate hpd_markers outline shade ax = Inr ax'" for ax'
  proof -
    from d_helper_branch_Inr [OF ok] assms(1) obtain xmin xmax ax1 where
      h: "d_helper_hist env vec color alpha outline shade ax = Inr (xmin, xmax, ax1)" by auto
    with assms(1) have b: "(if dtype_kind vec = CHR ''f''
            then d_helper_kde env vec color bw linewidth alpha outline shade ax
            else d_helper_hist env vec color alpha outline shade ax) = Inr (xmin, xmax, ax1)"
      by simp
    from d_helper_hist_Inr [OF assms(2) h] have "ax1 = ax @ ?drawn" .
    with d_helper_after_branch [OF b ok] show ?thesis by auto
  qed
  from 1 2 3 4 5 show ?thesis unfolding Let_def by blast
qed

theorem C6_witness:
  "py_range (sint (2 :: int64)) (sint (7 + 2 :: int64)) = [2, 3, 4, 5, 6, 7, 8]
   \<and> d_helper_hist env_demo (IntArr [2, 3, 5, 7]) ''C0'' 0.05 True 0 [] =
       Inr (2, 7, [HistStep (IntArr [2, 3, 5, 7]) [2, 3, 4, 5, 6, 7, 8] ''C0''])
   \<and> d_helper env_demo (IntArr [2, 3, 5, 7]) ''n'' ''C0'' 4.5 14 2 8 0.05 (Some ''mean'') [] True 0 [] =
       Inr [HistStep (IntArr [2, 3, 5, 7]) [2, 3, 4, 5, 6, 7, 8] ''C0'',
            Marker (17 / 4) (- 0.001) ''o'' ''C0'' 8, SetYticks [], SetTitle ''n'',
            HideSpine ''left'', HideSpine ''right'', HideSpine ''top'', TickParams 14]"
proof -
  have h1: "dtype_kind (IntArr [2, 3, 5, 7]) \<noteq> CHR ''f''" by simp
  have h2: "hpd env_demo (IntArr [2, 3, 5, 7]) 0.05 = Inr (IntV 2, IntV 7)" by code_simp
  have h3: "sint (7 :: int64) \<le> 9223372036854775805" by simp
  have s: "sint (2 :: int64) = 2" "sint (7 :: int64) = 7" by simp_all
  have u: "[2..7 + 1] = [2, 3, 4, 5, 6, 7, (8::int)]" by code_simp
  from C6_histogram_bins [OF h1 h2 h3]
  have "py_range (sint (2 :: int64)) (sint (7 + 2 :: int64)) = [sint (2 :: int64)..sint (7 :: int64) + 1]"
    unfolding Let_def by blast
  then have b': "py_range (sint (2 :: int64)) (sint (7 + 2 :: int64)) = [2, 3, 4, 5, 6, 7, 8]"
    unfolding s u .
  have d': "d_helper_hist env_demo (IntArr [2, 3, 5, 7]) ''C0'' 0.05 True 0 [] =
       Inr (2, 7, [HistStep (IntArr [2, 3, 5, 7]) [2, 3, 4, 5, 6, 7, 8] ''C0''])"
    by code_simp
  have "d_helper env_demo (IntArr [2, 3, 5, 7]) ''n'' ''C0'' 4.5 14 2 8 0.05 (Some ''mean'') [] True 0 [] =
       Inr [HistStep (IntArr [2, 3, 5, 7]) [2, 3, 4, 5, 6, 7, 8] ''C0'',
            Marker (17 / 4) (- 0.001) ''o'' ''C0'' 8, SetYticks [], SetTitle ''n'',
            HideSpine ''left'', HideSpine ''right'', HideSpine ''top'', TickParams 14]"
    by code_simp
  with b' d' show ?thesis by simp
qed

text \<open>
  Without the bound on \<open>upper\<close> the bins are not those of the claim: for the interval
  \<open>[2\<^sup>6\<^sup>3 - 2, 2\<^sup>6\<^sup>3 - 1]\<close> the sum \<^verbatim>\<open>upper + 2\<close> wraps around to \<open>- 2\<^sup>6\<^sup>3 + 1\<close>, the
  range is empty, and \<^verbatim>\<open>ax.hist\<close> is called with no bin at all, which it refuses.
\<close>

theorem C6_counterexample:
  "dtype_kind (IntArr [9223372036854775806, 9223372036854775807]) \<noteq> CHR ''f''
   \<and> hpd env_demo (IntArr [9223372036854775806, 9223372036854775807]) 0.05 =
       Inr (IntV 9223372036854775806, IntV 9223372036854775807)
   \<and> sint (9223372036854775807 + 2 :: int64) = - 9223372036854775807
   \<and> py_range (sint (9223372036854775806 :: int64)) (sint (9223372036854775807 + 2 :: int64)) = []
   \<and> d_helper_hist env_any_hist (IntArr [9223372036854775806, 9223372036854775807]) ''C0'' 0.05 True 0 [] =
       Inr (9223372036854775806, 9223372036854775807,
            [HistStep (IntArr [9223372036854775806, 9223372036854775807]) [] ''C0''])
   \<and> d_helper env_demo (IntArr [9223372036854775806, 9223372036854775807]) ''n'' ''C0'' 4.5 14 2 8 0.05
       (Some ''mean'') [] True 0 [] = Inl (ValueError ''bins'')"
proof -
  let ?v = "IntArr [9223372036854775806, 9223372036854775807]"
  have 1: "dtype_kind ?v \<noteq> CHR ''f''" by simp
  have 2: "hpd env_demo ?v 0.05 = Inr (IntV 9223372036854775806, IntV 9223372036854775807)"
    by code_simp
  have 3: "sint (9223372036854775807 + 2 :: int64) = - 9223372036854775807" by code_simp
  have 4: "py_range (sint (9223372036854775806 :: int64)) (sint (9223372036854775807 + 2 :: int64)) = []"
    by code_simp
  have 5: "d_helper_hist env_any_hist ?v ''C0'' 0.05 True 0 [] =
       Inr (9223372036854775806, 9223372036854775807, [HistStep ?v [] ''C0''])"
    by code_simp
  have 6: "d_helper env_demo ?v ''n'' ''C0'' 4.5 14 2 8 0.05 (Some ''mean'') [] True 0 [] =
       Inl (ValueError ''bins'')"
    by code_simp
  from 1 2 3 4 5 6 show ?thesis by blast
qed

lemma d_helper_hist_no_kde:
  "d_helper_hist (env\<lparr>fast_kde := k\<rparr>) vec color alpha outline shade ax =
   d_helper_hist env vec color alpha outline shade ax"
  by (simp add: d_helper_hist_def ax_hist_def Let_def split: sum.splits prod.splits num.splits)

lemma d_helper_kde_no_hist:
  "d_helper_kde (env\<lparr>hist_raises := h\<rparr>) vec color bw linewidth alpha outline shade ax =
   d_helper_kde env vec color bw linewidth alpha outline shade ax"
  by (simp add: d_helper_kde_def Let_def split: sum.splits prod.splits)

lemma d_helper_finish_no_kde:
  "d_helper_finish (env\<lparr>fast_kde := k\<rparr>) vec vname color textsize markersize point_estimate
     hpd_markers branch =
   d_helper_finish env vec vname color textsize markersize point_estimate hpd_markers branch"
  by (simp add: d_helper_finish_def d_helper_estimate_def Let_def split: sum.splits prod.splits option.splits)

lemma d_helper_finish_no_hist:
  "d_helper_finish (env\<lparr>hist_raises := h\<rparr>) vec vname color textsize markersize point_estimate
     hpd_markers branch =
   d_helper_finish env vec vname color textsize markersize point_estimate hpd_markers branch"
  by (simp add: d_helper_finish_def d_helper_estimate_def Let_def split: sum.splits prod.splits option.splits)

lemma d_helper_finish_eq:
  "d_helper env vec vname color bw textsize linewidth markersize alpha point_estimate
     hpd_markers outline shade ax =
   d_helper_finish env vec vname color textsize markersize point_estimate hpd_markers
     (if dtype_kind vec = CHR ''f''
      then d_helper_kde env vec color bw linewidth alpha outline shade ax
      else d_helper_hist env vec color alpha outline shade ax)"
  by (simp add: d_helper_def d_helper_finish_def)

text \<open>
  Claim C9. \<^verbatim>\<open>_d_helper\<close> takes the continuous branch exactly for the vectors whose dtype
  kind is \<^verbatim>\<open>'f'\<close>: what it returns or raises is what the lines after the branches make of
  the result of the density branch for such a vector, and of the result of the histogram
  branch for every other vector, boolean, unsigned, complex, string and object ones
  included. For a floating-point vector the density estimator is run (an exception it
  raises, and any exception of the density branch, is the renderer's), \<^verbatim>\<open>ax.hist\<close> is not
  consulted (the result is the same whatever it does), and what the renderer has drawn
  when it returns is the curves and fills of the density branch, with no histogram. For
  every other vector the density estimator is not consulted, an exception of the
  histogram branch is the renderer's, and what the renderer has drawn when it returns is
  the histograms of the histogram branch, with no density curve. In both cases something
  is drawn whenever \<^verbatim>\<open>outline\<close> is set or \<^verbatim>\<open>shade\<close> is not zero.
\<close>

theorem C9_branch_on_dtype_kind:
  "d_helper env vec vname color bw textsize linewidth markersize alpha point_estimate
     hpd_markers outline shade ax =
   d_helper_finish env vec vname color textsize markersize point_estimate hpd_markers
     (if dtype_kind vec = CHR ''f''
      then d_helper_kde env vec color bw linewidth alpha outline shade ax
      else d_helper_hist env vec color alpha outline shade ax)
   \<and> (dtype_kind vec = CHR ''f'' \<longrightarrow>
      (\<forall>e. fast_kde env vec bw = Inl e \<or> d_helper_kde env vec color bw linewidth alpha outline shade ax = Inl e
          \<longrightarrow> d_helper env vec vname color bw textsize linewidth markersize alpha point_estimate
                hpd_markers outline shade ax = Inl e)
    \<and> (\<forall>h. d_helper (env\<lparr>hist_raises := h\<rparr>) vec vname color bw textsize linewidth markersize alpha
             point_estimate hpd_markers outline shade ax =
           d_helper env vec vname color bw textsize linewidth markersize alpha point_estimate
             hpd_markers outline shade ax)
    \<and> (\<forall>ax'. d_helper env vec vname color bw textsize linewidth markersize alpha point_estimate
                hpd_markers outline shade ax = Inr ax' \<longrightarrow>
           (\<exists>xmin xmax drawn rest.
               d_helper_kde env vec color bw linewidth alpha outline shade ax = Inr (xmin, xmax, ax @ drawn)
               \<and> ax' = ax @ drawn @ rest \<and> list_all is_kde_cmd drawn
               \<and> (outline \<or> shade \<noteq> 0 \<longrightarrow> drawn \<noteq> [])
               \<and> \<not> list_ex is_kde_cmd rest \<and> \<not> list_ex is_hist_cmd rest)))
   \<and> (dtype_kind vec \<noteq> CHR ''f'' \<longrightarrow>
      (\<forall>e. d_helper_hist env vec color alpha outline shade ax = Inl e
          \<longrightarrow> d_helper env vec vname color bw textsize linewidth markersize alpha point_estimate
                hpd_markers outline shade ax = Inl e)
    \<and> (\<forall>k. d_helper (env\<lparr>fast_kde := k\<rparr>) vec vname color bw textsize linewidth markersize alpha
             point_estimate hpd_markers outline shade ax =
           d_helper env vec vname color bw textsize linewidth markersize alpha point_estimate
             hpd_markers outline shade ax)
    \<and> (\<forall>ax'. d_helper env vec vname color bw textsize linewidth markersize alpha point_estimate
                hpd_markers outline shade ax = Inr ax' \<longrightarrow>
           (\<exists>xmin xmax drawn rest.
               d_helper_hist env vec color alpha outline shade ax = Inr (xmin, xmax, ax @ drawn)
               \<and> ax' = ax @ drawn @ rest \<and> list_all is_hist_cmd drawn
               \<and> (outline \<or> shade \<noteq> 0 \<longrightarrow> drawn \<noteq> [])
               \<and> \<not> list_ex is_kde_cmd rest \<and> \<not> list_ex is_hist_cmd rest)))"
proof -
  let ?run = "\<lambda>env. d_helper env vec vname color bw textsize linewidth markersize alpha
                      point_estimate hpd_markers outline shade ax"
  let ?kde = "d_helper_kde env vec color bw linewidth alpha outline shade ax"
  let ?hist = "d_helper_hist env vec color alpha outline shade ax"
  note eq = d_helper_finish_eq
  have f1: "?run env = Inl e"
    if "dtype_kind vec = CHR ''f''" and "fast_kde env vec bw = Inl e \<or> ?kde = Inl e" for e
  proof -
    from that(2) have "?kde = Inl e" by (auto simp: d_helper_kde_def)
    with that(1) show ?thesis by (simp add: eq d_helper_finish_def)
  qed
  have f2: "?run (env\<lparr>hist_raises := h\<rparr>) = ?run env" if "dtype_kind vec = CHR ''f''" for h
    using that by (simp add: eq d_helper_kde_no_hist d_helper_finish_no_hist)
  have f3: "\<exists>xmin xmax drawn rest. ?kde = Inr (xmin, xmax, ax @ drawn)
               \<and> ax' = ax @ drawn @ rest \<and> list_all is_kde_cmd drawn
               \<and> (outline \<or> shade \<noteq> 0 \<longrightarrow> drawn \<noteq> [])
               \<and> \<not> list_ex is_kde_cmd rest \<and> \<not> list_ex is_hist_cmd rest"
    if f: "dtype_kind vec = CHR ''f''" and ok: "?run env = Inr ax'" for ax'
  proof -
    from d_helper_branch_Inr [OF ok] obtain xmin xmax ax1 where
      b: "(if dtype_kind vec = CHR ''f'' then ?kde else ?hist) = Inr (xmin, xmax, ax1)"
      by blast
    with f have k: "?kde = Inr (xmin, xmax, ax1)" by simp
    from d_helper_kde_shape [OF k] obtain drawn where
      d: "ax1 = ax @ drawn" "list_all is_kde_cmd drawn" "outline \<or> shade \<noteq> 0 \<longrightarrow> drawn \<noteq> []"
      by blast
    from d_helper_after_branch [OF b ok] obtain rest where
      r: "ax' = ax1 @ rest" "\<not> list_ex is_kde_cmd rest" "\<not> list_ex is_hist_cmd rest"
      by blast
    from d(1) r(1) have "ax' = ax @ drawn @ rest" by simp
    with k d r(2,3) show ?thesis by blast
  qed
  have g1: "?run env = Inl e" if "dtype_kind vec \<noteq> CHR ''f''" and "?hist = Inl e" for e
    using that by (simp add: eq d_helper_finish_def)
  have g2: "?run (env\<lparr>fast_kde := k\<rparr>) = ?run env" if "dtype_kind vec \<noteq> CHR ''f''" for k
    using that by (simp add: eq d_helper_hist_no_kde d_helper_finish_no_kde)
  have g3: "\<exists>xmin xmax drawn rest. ?hist = Inr (xmin, xmax, ax @ drawn)
               \<and> ax' = ax @ drawn @ rest \<and> list_all is_hist_cmd drawn
               \<and> (outline \<or> shade \<noteq> 0 \<longrightarrow> drawn \<noteq> [])
               \<and> \<not> list_ex is_kde_cmd rest \<and> \<not> list_ex is_hist_cmd rest"
    if f: "dtype_kind vec \<noteq> CHR ''f''" and ok: "?run env = Inr ax'" for ax'
  proof -
    from d_helper_branch_Inr [OF ok] obtain xmin xmax ax1 where
      b: "(if dtype_kind vec = CHR ''f'' then ?kde else ?hist) = Inr (xmin, xmax, ax1)"
      by blast
    with f have k: "?hist = Inr (xmin, xmax, ax1)" by simp
    from d_helper_hist_shape [OF k] obtain drawn where
      d: "ax1 = ax @ drawn" "list_all is_hist_cmd drawn" "outline \<or> shade \<noteq> 0 \<longrightarrow> drawn \<noteq> []"
      by blast
    from d_helper_after_branch [OF b ok] obtain rest where
      r: "ax' = ax1 @ rest" "\<not> list_ex is_kde_cmd rest" "\<not> list_ex is_hist_cmd rest"
      by blast
    from d(1) r(1) have "ax' = ax @ drawn @ rest" by simp
    with k d r(2,3) show ?thesis by blast
  qed
  show ?thesis
  proof (intro conjI impI allI)
    show "?run env = d_helper_finish env vec vname color textsize markersize point_estimate
            hpd_markers (if dtype_kind vec = CHR ''f'' then ?kde else ?hist)"
      by (rule eq)
  qed (use f1 f2 f3 g1 g2 g3 in blast)+
qed

theorem C9_witness:
  "d_helper env_demo (FloatArr [1, 2, 3]) ''mu'' ''C0'' 4.5 14 2 8 0.05 (Some ''median'') ''v'' True 0.5 [] =
     Inr [Line [1, 2, 3] [2, 3, 2] ''C0'' None 2,
          Line [1, 1] [- (1 / 50), 2] ''C0'' (Some ''-'') 2,
          Line [3, 3] [- (1 / 50), 2] ''C0'' (Some ''-'') 2,
          FillBetween [0, 1, 2, 3, 4] [1, 2, 3, 2, 1] [False, True, True, True, False] ''C0'' (1 / 2),
          Marker 1 0 ''v'' ''C0'' 8, Marker 3 0 ''v'' ''C0'' 8,
          Marker 2 (- (1 / 1000)) ''o'' ''C0'' 8, SetYticks [], SetTitle ''mu'',
          HideSpine ''left'', HideSpine ''right'', HideSpine ''top'', TickParams 14]
   \<and> d_helper (env_demo\<lparr>hist_raises := (\<lambda>c. Some (Raised ''no hist''))\<rparr>) (FloatArr [1, 2, 3])
       ''mu'' ''C0'' 4.5 14 2 8 0.05 (Some ''median'') ''v'' True 0.5 [] =
     d_helper env_demo (FloatArr [1, 2, 3]) ''mu'' ''C0'' 4.5 14 2 8 0.05 (Some ''median'') ''v'' True 0.5 []
   \<and> d_helper (env_demo\<lparr>fast_kde := (\<lambda>v bw. Inl (Raised ''no kde''))\<rparr>) (FloatArr [1, 2, 3])
       ''mu'' ''C0'' 4.5 14 2 8 0.05 None [] True 0 [] = Inl (Raised ''no kde'')
   \<and> d_helper (env_demo\<lparr>fast_kde := (\<lambda>v bw. Inl (Raised ''no kde''))\<rparr>) (BoolArr [True, False])
       ''b'' ''C0'' 4.5 14 2 8 0.05 None [] True 0 [] =
     Inr [HistStep (BoolArr [True, False]) [0, 1, 2] ''C0'', SetYticks [], SetTitle ''b'',
          HideSpine ''left'', HideSpine ''right'', HideSpine ''top'', TickParams 14]
   \<and> d_helper (env_demo\<lparr>hpd := (\<lambda>v a. Inr (IntV 0, IntV 3))\<rparr>) (UIntArr [0, 3])
       ''u'' ''C0'' 4.5 14 2 8 0.05 None [] False 0.5 [] =
     Inr [HistFilled (UIntArr [0, 3]) [0, 1, 2, 3, 4] ''C0'' (1 / 2), SetYticks [], SetTitle ''u'',
          HideSpine ''left'', HideSpine ''right'', HideSpine ''top'', TickParams 14]
   \<and> d_helper env_demo (ObjectArr [''a'']) ''o'' ''C0'' 4.5 14 2 8 0.05 None [] True 0 [] =
     Inl (Raised ''hpd failed'')"
proof -
  let ?nokde = "env_demo\<lparr>fast_kde := (\<lambda>v bw. Inl (Raised ''no kde''))\<rparr>"
  let ?nohist = "env_demo\<lparr>hist_raises := (\<lambda>c. Some (Raised ''no hist''))\<rparr>"
  let ?ints = "env_demo\<lparr>hpd := (\<lambda>v a. Inr (IntV 0, IntV 3))\<rparr>"
  have f: "dtype_kind (FloatArr [1, 2, 3]) = CHR ''f''" by simp
  have b: "dtype_kind (BoolArr [True, False]) \<noteq> CHR ''f''" by simp
  have u: "dtype_kind (UIntArr [0, 3]) \<noteq> CHR ''f''" by simp
  have ob: "dtype_kind (ObjectArr [''a'']) \<noteq> CHR ''f''" by simp
  have kde: "d_helper_kde env_demo (FloatArr [1, 2, 3]) ''C0'' 4.5 2 0.05 True 0.5 [] =
       Inr (1, 3, [Line [1, 2, 3] [2, 3, 2] ''C0'' None 2,
                   Line [1, 1] [- (1 / 50), 2] ''C0'' (Some ''-'') 2,
                   Line [3, 3] [- (1 / 50), 2] ''C0'' (Some ''-'') 2,
                   FillBetween [0, 1, 2, 3, 4] [1, 2, 3, 2, 1] [False, True, True, True, False] ''C0'' (1 / 2)])"
    by code_simp
  have fin: "d_helper_finish env_demo (FloatArr [1, 2, 3]) ''mu'' ''C0'' 14 8 (Some ''median'') ''v''
       (Inr (1, 3, [Line [1, 2, 3] [2, 3, 2] ''C0'' None 2,
                   Line [1, 1] [- (1 / 50), 2] ''C0'' (Some ''-'') 2,
                   Line [3, 3] [- (1 / 50), 2] ''C0'' (Some ''-'') 2,
                   FillBetween [0, 1, 2, 3, 4] [1, 2, 3, 2, 1] [False, True, True, True, False] ''C0'' (1 / 2)])) =
     Inr [Line [1, 2, 3] [2, 3, 2] ''C0'' None 2,
          Line [1, 1] [- (1 / 50), 2] ''C0'' (Some ''-'') 2,
          Line [3, 3] [- (1 / 50), 2] ''C0'' (Some ''-'') 2,
          FillBetween [0, 1, 2, 3, 4] [1, 2, 3, 2, 1] [False, True, True, True, False] ''C0'' (1 / 2),
          Marker 1 0 ''v'' ''C0'' 8, Marker 3 0 ''v'' ''C0'' 8,
          Marker 2 (- (1 / 1000)) ''o'' ''C0'' 8, SetYticks [], SetTitle ''mu'',
          HideSpine ''left'', HideSpine ''right'', HideSpine ''top'', TickParams 14]"
    by code_simp
  note fl = C9_branch_on_dtype_kind [of env_demo "FloatArr [1, 2, 3]" "''mu''" "''C0''" "4.5" 14 2 8 "0.05"
         "Some ''median''" "''v''" True "0.5" "[]"]
  from fl f have "d_helper env_demo (FloatArr [1, 2, 3]) ''mu'' ''C0'' 4.5 14 2 8 0.05 (Some ''median'') ''v'' True 0.5 [] =
     d_helper_finish env_demo (FloatArr [1, 2, 3]) ''mu'' ''C0'' 14 8 (Some ''median'') ''v''
       (d_helper_kde env_demo (FloatArr [1, 2, 3]) ''C0'' 4.5 2 0.05 True 0.5 [])"
    by simp
  then have 1: "d_helper env_demo (FloatArr [1, 2, 3]) ''mu'' ''C0'' 4.5 14 2 8 0.05 (Some ''median'') ''v'' True 0.5 [] =
     Inr [Line [1, 2, 3] [2, 3, 2] ''C0'' None 2,
          Line [1, 1] [- (1 / 50), 2] ''C0'' (Some ''-'') 2,
          Line [3, 3] [- (1 / 50), 2] ''C0'' (Some ''-'') 2,
          FillBetween [0, 1, 2, 3, 4] [1, 2, 3, 2, 1] [False, True, True, True, False] ''C0'' (1 / 2),
          Marker 1 0 ''v'' ''C0'' 8, Marker 3 0 ''v'' ''C0'' 8,
          Marker 2 (- (1 / 1000)) ''o'' ''C0'' 8, SetYticks [], SetTitle ''mu'',
          HideSpine ''left'', HideSpine ''right'', HideSpine ''top'', TickParams 14]"
    unfolding kde fin .
  from fl f have 2: "d_helper ?nohist (FloatArr [1, 2, 3])
       ''mu'' ''C0'' 4.5 14 2 8 0.05 (Some ''median'') ''v'' True 0.5 [] =
     d_helper env_demo (FloatArr [1, 2, 3]) ''mu'' ''C0'' 4.5 14 2 8 0.05 (Some ''median'') ''v'' True 0.5 []"
    by blast
  have k: "fast_kde ?nokde (FloatArr [1, 2, 3]) 4.5 = Inl (Raised ''no kde'')" by simp
  from C9_branch_on_dtype_kind [of ?nokde "FloatArr [1, 2, 3]" "''mu''" "''C0''" "4.5" 14 2 8 "0.05"
         None "[]" True 0 "[]"] f k
  have 3: "d_helper ?nokde (FloatArr [1, 2, 3]) ''mu'' ''C0'' 4.5 14 2 8 0.05 None [] True 0 [] =
        Inl (Raised ''no kde'')"
    by blast
  have run: "d_helper env_demo (BoolArr [True, False]) ''b'' ''C0'' 4.5 14 2 8 0.05 None [] True 0 [] =
     Inr [HistStep (BoolArr [True, False]) [0, 1, 2] ''C0'', SetYticks [], SetTitle ''b'',
          HideSpine ''left'', HideSpine ''right'', HideSpine ''top'', TickParams 14]"
    by code_simp
  from C9_branch_on_dtype_kind [of env_demo "BoolArr [True, False]" "''b''" "''C0''" "4.5" 14 2 8 "0.05"
         None "[]" True 0 "[]"] b
  have "d_helper ?nokde (BoolArr [True, False]) ''b'' ''C0'' 4.5 14 2 8 0.05 None [] True 0 [] =
        d_helper env_demo (BoolArr [True, False]) ''b'' ''C0'' 4.5 14 2 8 0.05 None [] True 0 []"
    by blast
  with run have 4: "d_helper ?nokde (BoolArr [True, False]) ''b'' ''C0'' 4.5 14 2 8 0.05 None [] True 0 [] =
     Inr [HistStep (BoolArr [True, False]) [0, 1, 2] ''C0'', SetYticks [], SetTitle ''b'',
          HideSpine ''left'', HideSpine ''right'', HideSpine ''top'', TickParams 14]"
    by simp
  have 5: "d_helper ?ints (UIntArr [0, 3]) ''u'' ''C0'' 4.5 14 2 8 0.05 None [] False 0.5 [] =
     Inr [HistFilled (UIntArr [0, 3]) [0, 1, 2, 3, 4] ''C0'' (1 / 2), SetYticks [], SetTitle ''u'',
          HideSpine ''left'', HideSpine ''right'', HideSpine ''top'', TickParams 14]"
    by code_simp
  have h: "d_helper_hist env_demo (ObjectArr [''a'']) ''C0'' 0.05 True 0 [] = Inl (Raised ''hpd failed'')"
    by code_simp
  from C9_branch_on_dtype_kind [of env_demo "ObjectArr [''a'']" "''o''" "''C0''" "4.5" 14 2 8 "0.05"
         None "[]" True 0 "[]"] ob h
  have 6: "d_helper env_demo (ObjectArr [''a'']) ''o'' ''C0'' 4.5 14 2 8 0.05 None [] True 0 [] =
     Inl (Raised ''hpd failed'')"
    by blast
  from 1 2 3 4 5 6 show ?thesis by blast
qed

subsection \<open>The burn-in filter\<close>

lemma promote_not_nan: "promote v \<noteq> CNaN \<longleftrightarrow> v \<noteq> CNaN"
  by (cases v) simp_all

lemma burn_in_row:
  "burn_in [r] k =
     (if (k \<le> draw r \<or> vals r = []) \<and> list_all (\<lambda>v. v \<noteq> CNaN) (vals r)
      then [r\<lparr>vals := map promote (vals r)\<rparr>] else [])"
proof (cases "k \<le> draw r")
  case True
  then show ?thesis
    by (auto simp: burn_in_def xr_dropna_draw_def xr_where_draw_ge_def list_all_iff promote_not_nan)
next
  case False
  have "list_all (\<lambda>v. v \<noteq> CNaN) (map (\<lambda>v. CNaN) (vals r)) \<longleftrightarrow> vals r = []"
    by (cases "vals r") simp_all
  with False show ?thesis
    by (simp add: burn_in_def xr_dropna_draw_def xr_where_draw_ge_def)
qed

lemma burn_in_append: "burn_in (xs @ ys) k = burn_in xs k @ burn_in ys k"
  by (simp add: burn_in_def xr_dropna_draw_def xr_where_draw_ge_def)

lemma burn_in_filter:
  "burn_in data k =
     map (\<lambda>r. r\<lparr>vals := map promote (vals r)\<rparr>)
       (filter (\<lambda>r. (k \<le> draw r \<or> vals r = []) \<and> list_all (\<lambda>v. v \<noteq> CNaN) (vals r)) data)"
proof (induction data)
  case Nil
  show ?case by (simp add: burn_in_def xr_dropna_draw_def xr_where_draw_ge_def)
next
  case (Cons r rs)
  have "burn_in (r # rs) k = burn_in [r] k @ burn_in rs k"
    using burn_in_append [of "[r]" rs k] by simp
  with Cons show ?case by (simp add: burn_in_row)
qed

text \<open>
  Claim C7. The burn-in step of line 67 is \<^verbatim>\<open>where\<close> followed by \<^verbatim>\<open>dropna\<close>: of the draws
  of a dataset it keeps, in order, those whose coordinate is at least \<^verbatim>\<open>skip_first\<close> and
  that hold no missing value (and any draw that holds no value at all), and the values it
  keeps are promoted to \<^verbatim>\<open>float64\<close>. So the step does not keep exactly the draws whose
  index is at least \<^verbatim>\<open>skip_first\<close>, and it does not keep them as they were: with
  \<^verbatim>\<open>skip_first = 0\<close> the draw of coordinate 1 of \<open>ds_nan\<close>, which holds a missing value, is
  discarded, and the integer variable of \<open>ds_counts\<close> comes out floating-point, so that
  \<^verbatim>\<open>densityplot\<close> draws density curves for it and no histogram.
\<close>

theorem C7_burn_in_drops_and_promotes:
  "burn_in data skip_first =
     map (\<lambda>r. r\<lparr>vals := map promote (vals r)\<rparr>)
       (filter (\<lambda>r. (skip_first \<le> draw r \<or> vals r = []) \<and> list_all (\<lambda>v. v \<noteq> CNaN) (vals r)) data)
   \<and> filter (\<lambda>r. 0 \<le> draw r) ds_nan = ds_nan
   \<and> burn_in ds_nan 0 = [\<lparr>draw = 0, vals = [CFloat 1]\<rparr>, \<lparr>draw = 2, vals = [CFloat 3]\<rparr>]
   \<and> filter (\<lambda>r. 0 \<le> draw r) ds_counts = ds_counts
   \<and> burn_in ds_counts 0 =
       [\<lparr>draw = 0, vals = [CFloat 2]\<rparr>, \<lparr>draw = 1, vals = [CFloat 3]\<rparr>,
        \<lparr>draw = 2, vals = [CFloat 5]\<rparr>, \<lparr>draw = 3, vals = [CFloat 7]\<rparr>]
   \<and> column_of ds_counts = IntArr [2, 3, 5, 7]
   \<and> column_of (burn_in ds_counts 0) = FloatArr [2, 3, 5, 7]
   \<and> densityplot env_demo (default_args (Single ds_counts)) =
       ([EvConvert 0, EvBurnIn 0, EvVarIter 0, EvScaleText, EvSubplots 1, EvRender 0 ''mu'',
         EvTightLayout],
        Inr [[Line [2, 3, 4] [3, 2, 1] ''C0'' None 2,
              Line [2, 2] [- (3 / 100), 3] ''C0'' (Some ''-'') 2,
              Line [4, 4] [- (1 / 100), 1] ''C0'' (Some ''-'') 2,
              Marker (17 / 4) (- (1 / 1000)) ''o'' ''C0'' 8, SetYticks [], SetTitle ''mu'',
              HideSpine ''left'', HideSpine ''right'', HideSpine ''top'', TickParams 14]])"
proof -
  have 1: "filter (\<lambda>r. 0 \<le> draw r) ds_nan = ds_nan" by code_simp
  have 2: "burn_in ds_nan 0 = [\<lparr>draw = 0, vals = [CFloat 1]\<rparr>, \<lparr>draw = 2, vals = [CFloat 3]\<rparr>]"
    by code_simp
  have 3: "filter (\<lambda>r. 0 \<le> draw r) ds_counts = ds_counts" by code_simp
  have 4: "burn_in ds_counts 0 =
       [\<lparr>draw = 0, vals = [CFloat 2]\<rparr>, \<lparr>draw = 1, vals = [CFloat 3]\<rparr>,
        \<lparr>draw = 2, vals = [CFloat 5]\<rparr>, \<lparr>draw = 3, vals = [CFloat 7]\<rparr>]"
    by code_simp
  have 5: "column_of ds_counts = IntArr [2, 3, 5, 7]" by code_simp
  have 6: "column_of (burn_in ds_counts 0) = FloatArr [2, 3, 5, 7]" by code_simp
  have 7: "densityplot env_demo (default_args (Single ds_counts)) =
       ([EvConvert 0, EvBurnIn 0, EvVarIter 0, EvScaleText, EvSubplots 1, EvRender 0 ''mu'',
         EvTightLayout],
        Inr [[Line [2, 3, 4] [3, 2, 1] ''C0'' None 2,
              Line [2, 2] [- (3 / 100), 3] ''C0'' (Some ''-'') 2,
              Line [4, 4] [- (1 / 100), 1] ''C0'' (Some ''-'') 2,
              Marker (17 / 4) (- (1 / 1000)) ''o'' ''C0'' 8, SetYticks [], SetTitle ''mu'',
              HideSpine ''left'', HideSpine ''right'', HideSpine ''top'', TickParams 14]])"
    by code_simp
  from burn_in_filter [of data skip_first] 1 2 3 4 5 6 7 show ?thesis by blast
qed

subsection \<open>The figure orchestrator\<close>

lemma collect_plotters_ok:
  "collect_plotters env i ds vn = (evs, Inr tp) \<Longrightarrow>
     evs = map EvVarIter [i..<i + length ds] \<and> length tp = length ds"
proof (induction ds arbitrary: i evs tp)
  case Nil
  then show ?case by (simp add: ret_def)
next
  case (Cons x xs)
  have u: "[i..<i + length (x # xs)] = i # [Suc i..<Suc i + length xs]"
    by (simp add: upt_rec)
  show ?case
  proof (cases "xarray_var_iter env x vn")
    case (Inl e)
    with Cons.prems show ?thesis by simp
  next
    case (Inr d)
    obtain evs' r where c: "collect_plotters env (Suc i) xs vn = (evs', r)" by fastforce
    show ?thesis
    proof (cases r)
      case (Inl e)
      with Cons.prems Inr c show ?thesis by simp
    next
      case (Inr ds')
      with Cons.prems \<open>xarray_var_iter env x vn = Inr d\<close> c
      have "evs = EvVarIter i # evs'" "tp = d # ds'" by (simp_all add: ret_def)
      moreover from Cons.IH [of "Suc i" evs' ds'] c Inr
      have "evs' = map EvVarIter [Suc i..<Suc i + length xs]" "length ds' = length xs" by simp_all
      ultimately show ?thesis using u by simp
    qed
  qed
qed

lemma label_set_set: "set (label_set env tp) = plotter_label env ` set (concat tp)"
  by (simp add: label_set_def)

lemma label_set_distinct: "distinct (label_set env tp)"
  by (simp add: label_set_def)

lemma label_set_length: "length (label_set env tp) = card (plotter_label env ` set (concat tp))"
  using distinct_card [OF label_set_distinct, of env tp] by (simp add: label_set_set)

lemma axis_map_Some:
  assumes "l \<in> set ls"
  shows "\<exists>k. map_of (zip ls [0..<length ls]) l = Some k"
  using assms map_of_zip_is_Some [of ls "[0..<length ls]" l] by simp

lemma densityplot_pipeline:
  assumes c: "snd (convert_all env (arg_data a)) = Inr converted"
    and pe: "check_point_estimate (arg_point_estimate a) = Inr ()"
    and lb: "resolve_labels (arg_data_labels a) (length converted) = Inr data_labels"
    and tp: "snd (collect_plotters env 0 (map (\<lambda>d. burn_in d (arg_skip_first a)) converted)
                    (arg_var_names a)) = Inr to_plot"
    and sc: "scale_text env (case arg_figsize a of
                               None \<Rightarrow> (6, real (length (label_set env to_plot) * 2))
                             | Some fs \<Rightarrow> fs) (arg_textsize a) = (ts, lw, ms)"
  shows "densityplot env a =
     (let n = length converted;
          all_labels = label_set env to_plot;
          colors = resolve_colors (arg_colors a) n;
          before = map EvConvert [0..<n] @ map EvBurnIn [0..<n] @ map EvVarIter [0..<n]
                   @ [EvScaleText, EvSubplots (length all_labels)]
      in case render_all env a colors (map_of (zip all_labels [0..<length all_labels])) ts lw ms 0
                to_plot (replicate (length all_labels) []) of
           (rs, Inl e) \<Rightarrow> (before @ rs, Inl e)
         | (rs, Inr axes1) \<Rightarrow>
             (case (if n > 1 then add_legend colors data_labels ts ms axes1 else ret axes1) of
                (ls, Inl e) \<Rightarrow> (before @ rs @ ls, Inl e)
              | (ls, Inr axes2) \<Rightarrow> (before @ rs @ ls @ [EvTightLayout], Inr axes2)))"
proof -
  obtain evs where c': "convert_all env (arg_data a) = (evs, Inr converted)"
    using c by (cases "convert_all env (arg_data a)") simp
  with convert_all_ok have evs: "evs = map EvConvert [0..<length converted]" by blast
  obtain vs where tp': "collect_plotters env 0 (map (\<lambda>d. burn_in d (arg_skip_first a)) converted)
                    (arg_var_names a) = (vs, Inr to_plot)"
    using tp by (cases "collect_plotters env 0 (map (\<lambda>d. burn_in d (arg_skip_first a)) converted)
                    (arg_var_names a)") simp
  from collect_plotters_ok [OF this] have vs: "vs = map EvVarIter [0..<length converted]" by simp
  show ?thesis
    unfolding densityplot_def
    by (simp add: c' evs burn_in_each_eq pe lb tp' vs sc Let_def ret_def
             split: prod.splits sum.splits)
qed

lemma kde_not_legend: "list_all is_kde_cmd xs \<Longrightarrow> \<not> list_ex is_legend_cmd xs"
proof (induction xs)
  case Nil
  show ?case by simp
next
  case (Cons x xs)
  then show ?case by (cases x) simp_all
qed

lemma hist_not_legend: "list_all is_hist_cmd xs \<Longrightarrow> \<not> list_ex is_legend_cmd xs"
proof (induction xs)
  case Nil
  show ?case by simp
next
  case (Cons x xs)
  then show ?case by (cases x) simp_all
qed

lemma d_helper_no_legend:
  assumes ok: "d_helper env vec vname color bw textsize linewidth markersize alpha point_estimate
             hpd_markers outline shade ax = Inr ax'"
  shows "\<exists>new. ax' = ax @ new \<and> \<not> list_ex is_legend_cmd new"
proof -
  from d_helper_branch_Inr [OF ok] obtain xmin xmax ax1 where
    b: "(if dtype_kind vec = CHR ''f''
         then d_helper_kde env vec color bw linewidth alpha outline shade ax
         else d_helper_hist env vec color alpha outline shade ax) = Inr (xmin, xmax, ax1)"
    by blast
  have "\<exists>drawn. ax1 = ax @ drawn \<and> \<not> list_ex is_legend_cmd drawn"
  proof (cases "dtype_kind vec = CHR ''f''")
    case True
    with b have "d_helper_kde env vec color bw linewidth alpha outline shade ax = Inr (xmin, xmax, ax1)"
      by simp
    from d_helper_kde_shape [OF this] kde_not_legend show ?thesis by blast
  next
    case False
    with b have "d_helper_hist env vec color alpha outline shade ax = Inr (xmin, xmax, ax1)"
      by simp
    from d_helper_hist_shape [OF this] hist_not_legend show ?thesis by blast
  qed
  then obtain drawn where d: "ax1 = ax @ drawn" "\<not> list_ex is_legend_cmd drawn" by blast
  from d_helper_after_branch [OF b ok] obtain rest where
    r: "ax' = ax1 @ rest" "\<not> list_ex is_legend_cmd rest" by blast
  from d r have "ax' = ax @ (drawn @ rest)" "\<not> list_ex is_legend_cmd (drawn @ rest)" by simp_all
  then show ?thesis by blast
qed

lemma grown_refl: "grown axes axes"
  by (simp add: grown_def)

lemma grown_trans: "grown a b \<Longrightarrow> grown b c \<Longrightarrow> grown a c"
  unfolding grown_def
proof (intro conjI allI impI)
  assume h: "length b = length a \<and> (\<forall>k<length a. \<exists>new. b ! k = a ! k @ new \<and> \<not> list_ex is_legend_cmd new)"
            "length c = length b \<and> (\<forall>k<length b. \<exists>new. c ! k = b ! k @ new \<and> \<not> list_ex is_legend_cmd new)"
  then show "length c = length a" by simp
  fix k assume k: "k < length a"
  with h obtain n1 where n1: "b ! k = a ! k @ n1" "\<not> list_ex is_legend_cmd n1" by blast
  from k h obtain n2 where n2: "c ! k = b ! k @ n2" "\<not> list_ex is_legend_cmd n2" by auto
  from n1 n2 have "c ! k = a ! k @ (n1 @ n2)" "\<not> list_ex is_legend_cmd (n1 @ n2)" by simp_all
  then show "\<exists>new. c ! k = a ! k @ new \<and> \<not> list_ex is_legend_cmd new" by blast
qed

lemma grown_update:
  assumes "ax' = axes ! k @ new" and "\<not> list_ex is_legend_cmd new"
  shows "grown axes (axes[k := ax'])"
  unfolding grown_def
proof (intro conjI allI impI)
  show "length (axes[k := ax']) = length axes" by simp
  fix j assume j: "j < length axes"
  show "\<exists>n. axes[k := ax'] ! j = axes ! j @ n \<and> \<not> list_ex is_legend_cmd n"
  proof (cases "j = k")
    case True
    with j assms show ?thesis by auto
  next
    case False
    then have "axes[k := ax'] ! j = axes ! j @ []" by simp
    then show ?thesis by (intro exI [of _ "[]"]) simp
  qed
qed

lemma render_plotters_grown:
  "render_plotters env a colors axis_map ts lw ms m ps axes = (evs, Inr axes') \<Longrightarrow> grown axes axes'"
proof (induction ps arbitrary: axes evs)
  case Nil
  then show ?case by (simp add: ret_def grown_refl)
next
  case (Cons p ps)
  obtain var_name selection vs where p: "p = (var_name, selection, vs)" by (cases p) auto
  let ?label = "make_label env var_name selection"
  from Cons.prems p obtain color where col: "py_index colors m = Inr color"
    by (cases "py_index colors m") (simp_all add: Let_def)
  from Cons.prems p col obtain k where k: "axis_map ?label = Some k"
    by (cases "axis_map ?label") (simp_all add: Let_def)
  from Cons.prems p col k obtain ax' where
    d: "d_helper env vs ?label color (arg_bw a) ts lw ms (arg_alpha a) (arg_point_estimate a)
          (arg_hpd_markers a) (arg_outline a) (arg_shade a) (axes ! k) = Inr ax'"
    by (cases "d_helper env vs ?label color (arg_bw a) ts lw ms (arg_alpha a) (arg_point_estimate a)
          (arg_hpd_markers a) (arg_outline a) (arg_shade a) (axes ! k)") (simp_all add: Let_def)
  obtain evs' r where rec: "render_plotters env a colors axis_map ts lw ms m ps (axes[k := ax']) = (evs', r)"
    by fastforce
  with Cons.prems p col k d have "r = Inr axes'" by (simp add: Let_def)
  with rec Cons.IH have g2: "grown (axes[k := ax']) axes'" by blast
  from d_helper_no_legend [OF d] obtain new where "ax' = axes ! k @ new" "\<not> list_ex is_legend_cmd new"
    by blast
  from grown_update [OF this] g2 show ?case by (rule grown_trans)
qed

lemma render_all_grown:
  "render_all env a colors axis_map ts lw ms m tps axes = (evs, Inr axes') \<Longrightarrow> grown axes axes'"
proof (induction tps arbitrary: m axes evs)
  case Nil
  then show ?case by (simp add: ret_def grown_refl)
next
  case (Cons ps tps)
  obtain e1 r1 where r1: "render_plotters env a colors axis_map ts lw ms m ps axes = (e1, r1)"
    by fastforce
  show ?case
  proof (cases r1)
    case (Inl e)
    with Cons.prems r1 show ?thesis by simp
  next
    case (Inr axes1)
    obtain e2 r2 where r2: "render_all env a colors axis_map ts lw ms (Suc m) tps axes1 = (e2, r2)"
      by fastforce
    with Cons.prems r1 Inr have "r2 = Inr axes'" by simp
    with r2 Cons.IH have "grown axes1 axes'" by blast
    with render_plotters_grown r1 Inr show ?thesis using grown_trans by blast
  qed
qed

lemma legend_entries_Inr:
  "legend_entries colors ms m labels ax = (evs, Inr ax') \<Longrightarrow>
     (labels \<noteq> [] \<longrightarrow> m + length labels \<le> length colors)
   \<and> ax' = ax @ map (\<lambda>i. LegendEntry (labels ! i) (colors ! (m + i)) ms) [0..<length labels]
   \<and> evs = map EvLegendEntry [m..<m + length labels]"
proof (induction labels arbitrary: m ax evs)
  case Nil
  then show ?case by (simp add: ret_def)
next
  case (Cons l ls)
  from Cons.prems have m: "m < length colors"
    by (cases "m < length colors") (simp_all add: py_index_def)
  obtain e2 r2 where rec: "legend_entries colors ms (Suc m) ls (ax @ [LegendEntry l (colors ! m) ms]) = (e2, r2)"
    by fastforce
  with Cons.prems m have r2: "r2 = Inr ax'" and evs: "evs = EvLegendEntry m # e2"
    by (simp_all add: py_index_def)
  from Cons.IH [of "Suc m" "ax @ [LegendEntry l (colors ! m) ms]" e2] rec r2 have
    ih: "ls \<noteq> [] \<longrightarrow> Suc m + length ls \<le> length colors"
        "ax' = (ax @ [LegendEntry l (colors ! m) ms])
               @ map (\<lambda>i. LegendEntry (ls ! i) (colors ! (Suc m + i)) ms) [0..<length ls]"
        "e2 = map EvLegendEntry [Suc m..<Suc m + length ls]" by simp_all
  have u: "[m..<m + length (l # ls)] = m # [Suc m..<Suc m + length ls]" by (simp add: upt_rec)
  have v: "map (\<lambda>i. LegendEntry ((l # ls) ! i) (colors ! (m + i)) ms) [0..<length (l # ls)] =
           LegendEntry l (colors ! m) ms
           # map (\<lambda>i. LegendEntry (ls ! i) (colors ! (Suc m + i)) ms) [0..<length ls]"
    by (simp add: upt_rec [of 0] map_Suc_upt [symmetric] del: upt_Suc)
  from ih(1) m have "m + length (l # ls) \<le> length colors" by (cases "ls = []") simp_all
  with ih(2,3) evs u v show ?case by simp
qed

lemma add_legend_Inr:
  assumes "add_legend colors labels ts ms axes1 = (evs, Inr axes)"
  shows "axes1 \<noteq> [] \<and> (labels \<noteq> [] \<longrightarrow> length labels \<le> length colors)
       \<and> axes = (hd axes1 @ map (\<lambda>i. LegendEntry (labels ! i) (colors ! i) ms) [0..<length labels]
                    @ [Legend ts]) # tl axes1"
proof -
  from assms have ne: "axes1 \<noteq> []"
    by (cases axes1) (simp_all add: add_legend_def py_first_def)
  then have f: "py_first axes1 = Inr (hd axes1)" by (cases axes1) (simp_all add: py_first_def)
  obtain e1 r1 where l: "legend_entries colors ms 0 labels (hd axes1) = (e1, r1)" by fastforce
  with assms f obtain ax1 where r1: "r1 = Inr ax1"
    by (cases r1) (simp_all add: add_legend_def)
  with assms f l have axes: "axes = axes1[0 := ax1 @ [Legend ts]]"
    by (simp add: add_legend_def ret_def)
  from legend_entries_Inr [of colors ms 0 labels "hd axes1" e1 ax1] l r1 have
    b: "labels \<noteq> [] \<longrightarrow> length labels \<le> length colors" and
    a: "ax1 = hd axes1 @ map (\<lambda>i. LegendEntry (labels ! i) (colors ! i) ms) [0..<length labels]"
    by simp_all
  from ne axes a have "axes = (hd axes1 @ map (\<lambda>i. LegendEntry (labels ! i) (colors ! i) ms) [0..<length labels]
                    @ [Legend ts]) # tl axes1"
    by (cases axes1) simp_all
  with ne b show ?thesis by blast
qed

lemma resolve_labels_length:
  assumes "resolve_labels data_labels n = Inr ls" and "1 < n"
  shows "length ls = n"
  using assms by (auto simp: resolve_labels_def split: option.splits if_splits)

lemma grown_from_empty:
  assumes "grown (replicate n []) axes"
  shows "length axes = n \<and> (\<forall>ax \<in> set axes. \<not> list_ex is_legend_cmd ax)"
proof -
  from assms have l: "length axes = n" by (simp add: grown_def)
  have "\<not> list_ex is_legend_cmd ax" if "ax \<in> set axes" for ax
  proof -
    from that obtain k where k: "k < length axes" "ax = axes ! k" by (auto simp: in_set_conv_nth)
    with assms l obtain new where "axes ! k = replicate n [] ! k @ new" "\<not> list_ex is_legend_cmd new"
      unfolding grown_def by auto
    with k l show ?thesis by simp
  qed
  with l show ?thesis by blast
qed

lemma densityplot_returned:
  assumes c: "snd (convert_all env (arg_data a)) = Inr converted"
    and tp: "snd (collect_plotters env 0 (map (\<lambda>d. burn_in d (arg_skip_first a)) converted)
                    (arg_var_names a)) = Inr to_plot"
    and ok: "snd (densityplot env a) = Inr axes"
  shows "length axes = card (plotter_label env ` set (concat to_plot))
       \<and> (length converted \<le> 1 \<longrightarrow> (\<forall>ax \<in> set axes. \<not> list_ex is_legend_cmd ax))
       \<and> (1 < length converted \<longrightarrow>
            (\<exists>data_labels pre ts ms.
                resolve_labels (arg_data_labels a) (length converted) = Inr data_labels
              \<and> length data_labels = length converted
              \<and> length converted \<le> length (resolve_colors (arg_colors a) (length converted))
              \<and> axes \<noteq> []
              \<and> axes ! 0 =
                  pre @ map (\<lambda>i. LegendEntry (data_labels ! i)
                                   (resolve_colors (arg_colors a) (length converted) ! i) ms)
                          [0..<length converted]
                      @ [Legend ts]
              \<and> \<not> list_ex is_legend_cmd pre
              \<and> (\<forall>ax \<in> set (tl axes). \<not> list_ex is_legend_cmd ax)))"
proof -
  let ?n = "length converted"
  let ?colors = "resolve_colors (arg_colors a) ?n"
  let ?all = "label_set env to_plot"
  obtain evs where c': "convert_all env (arg_data a) = (evs, Inr converted)"
    using c by (cases "convert_all env (arg_data a)") simp
  have pe: "check_point_estimate (arg_point_estimate a) = Inr ()"
  proof (cases "check_point_estimate (arg_point_estimate a)")
    case (Inl e)
    with c' have "snd (densityplot env a) = Inl e"
      by (simp add: densityplot_def burn_in_each_eq)
    with ok show ?thesis by simp
  next
    case (Inr u)
    then show ?thesis by simp
  qed
  obtain data_labels where lb: "resolve_labels (arg_data_labels a) ?n = Inr data_labels"
  proof (cases "resolve_labels (arg_data_labels a) ?n")
    case (Inl e)
    with c' pe have "snd (densityplot env a) = Inl e"
      by (simp add: densityplot_def burn_in_each_eq)
    with ok show ?thesis by simp
  next
    case (Inr ls)
    with that show ?thesis by blast
  qed
  obtain ts lw ms where
    sc: "scale_text env (case arg_figsize a of
                           None \<Rightarrow> (6, real (length ?all * 2))
                         | Some fs \<Rightarrow> fs) (arg_textsize a) = (ts, lw, ms)"
    by (metis prod_cases3)
  note nf = densityplot_pipeline [OF c pe lb tp sc, unfolded Let_def]
  obtain rs r where ra: "render_all env a ?colors (map_of (zip ?all [0..<length ?all])) ts lw ms 0
                to_plot (replicate (length ?all) []) = (rs, r)" by fastforce
  from nf ra ok obtain axes1 where r: "r = Inr axes1" by (cases r) simp_all
  from render_all_grown ra r have "grown (replicate (length ?all) []) axes1" by blast
  from grown_from_empty [OF this] have
    len1: "length axes1 = length ?all" and nl1: "\<forall>ax \<in> set axes1. \<not> list_ex is_legend_cmd ax"
    by simp_all
  show ?thesis
  proof (cases "1 < ?n")
    case False
    with nf ra r ok have "axes = axes1" by (simp add: ret_def)
    with len1 nl1 False show ?thesis by (simp add: label_set_length)
  next
    case True
    obtain ls r2 where al: "add_legend ?colors data_labels ts ms axes1 = (ls, r2)" by fastforce
    with nf ra r ok True have r2: "r2 = Inr axes" by (cases r2) simp_all
    from add_legend_Inr [of ?colors data_labels ts ms axes1 ls axes] al r2 have
      ne: "axes1 \<noteq> []" and
      b: "data_labels \<noteq> [] \<longrightarrow> length data_labels \<le> length ?colors" and
      ax: "axes = (hd axes1 @ map (\<lambda>i. LegendEntry (data_labels ! i) (?colors ! i) ms)
                                [0..<length data_labels] @ [Legend ts]) # tl axes1"
      by simp_all
    from resolve_labels_length [OF lb True] have ll: "length data_labels = ?n" .
    with b True have cl: "?n \<le> length ?colors" by auto
    from ne ax have "length axes = length axes1" by (cases axes1) simp_all
    with len1 have 1: "length axes = card (plotter_label env ` set (concat to_plot))"
      by (simp only: label_set_length)
    from ne nl1 have nh: "\<not> list_ex is_legend_cmd (hd axes1)" by (cases axes1) simp_all
    from ne nl1 have nt: "\<forall>ax \<in> set (tl axes1). \<not> list_ex is_legend_cmd ax"
      by (cases axes1) simp_all
    from ax ll have a0: "axes ! 0 = hd axes1 @ map (\<lambda>i. LegendEntry (data_labels ! i) (?colors ! i) ms)
                                [0..<?n] @ [Legend ts]" by simp
    from ax have tl: "tl axes = tl axes1" and nea: "axes \<noteq> []" by simp_all
    from lb ll cl nea a0 nh nt tl have
      "\<exists>data_labels pre ts ms.
                resolve_labels (arg_data_labels a) ?n = Inr data_labels
              \<and> length data_labels = ?n
              \<and> ?n \<le> length ?colors
              \<and> axes \<noteq> []
              \<and> axes ! 0 =
                  pre @ map (\<lambda>i. LegendEntry (data_labels ! i) (?colors ! i) ms) [0..<?n]
                      @ [Legend ts]
              \<and> \<not> list_ex is_legend_cmd pre
              \<and> (\<forall>ax \<in> set (tl axes). \<not> list_ex is_legend_cmd ax)"
      by (intro exI [of _ data_labels] exI [of _ "hd axes1"] exI [of _ ts] exI [of _ ms]) simp
    with 1 True show ?thesis by simp
  qed
qed

lemma densityplot_allocates:
  assumes c: "snd (convert_all env (arg_data a)) = Inr converted"
    and pe: "check_point_estimate (arg_point_estimate a) = Inr ()"
    and lb: "resolve_labels (arg_data_labels a) (length converted) = Inr data_labels"
    and tp: "snd (collect_plotters env 0 (map (\<lambda>d. burn_in d (arg_skip_first a)) converted)
                    (arg_var_names a)) = Inr to_plot"
  shows "\<exists>rest. fst (densityplot env a) =
           map EvConvert [0..<length converted] @ map EvBurnIn [0..<length converted]
           @ map EvVarIter [0..<length converted]
           @ [EvScaleText, EvSubplots (card (plotter_label env ` set (concat to_plot)))] @ rest"
proof -
  obtain ts lw ms where
    sc: "scale_text env (case arg_figsize a of
                           None \<Rightarrow> (6, real (length (label_set env to_plot) * 2))
                         | Some fs \<Rightarrow> fs) (arg_textsize a) = (ts, lw, ms)"
    by (metis prod_cases3)
  note nf = densityplot_pipeline [OF c pe lb tp sc, unfolded Let_def]
  show ?thesis
    apply (simp only: label_set_length [symmetric])
    apply (simp only: nf)
    apply (auto split: prod.splits sum.splits)
    done
qed

text \<open>
  Claim C5. The number of panels is the number of distinct display labels over the
  variable instances of all the datasets: two instances with the same label, in one
  dataset or in two, share one panel. Once the arguments are validated and the variables
  iterated, \<^verbatim>\<open>plt.subplots\<close> is called with that number of rows, and whenever
  \<^verbatim>\<open>densityplot\<close> returns, it returns that many axes. For one dataset (or none) no panel
  holds a legend. For more than one dataset the first panel ends with one legend entry
  per dataset, in order, each with the dataset's label and colour, followed by the
  legend itself; nothing before them on that panel, and nothing on any other panel,
  belongs to a legend.
\<close>

theorem C5_panels_and_legend:
  assumes c: "snd (convert_all env (arg_data a)) = Inr converted"
    and tp: "snd (collect_plotters env 0 (map (\<lambda>d. burn_in d (arg_skip_first a)) converted)
                    (arg_var_names a)) = Inr to_plot"
  shows "(check_point_estimate (arg_point_estimate a) = Inr ()
            \<and> (\<exists>ls. resolve_labels (arg_data_labels a) (length converted) = Inr ls)
          \<longrightarrow> (\<exists>rest. fst (densityplot env a) =
                 map EvConvert [0..<length converted] @ map EvBurnIn [0..<length converted]
                 @ map EvVarIter [0..<length converted]
                 @ [EvScaleText, EvSubplots (card (plotter_label env ` set (concat to_plot)))]
                 @ rest))
       \<and> (\<forall>axes. snd (densityplot env a) = Inr axes \<longrightarrow>
            length axes = card (plotter_label env ` set (concat to_plot))
            \<and> (length converted \<le> 1 \<longrightarrow> (\<forall>ax \<in> set axes. \<not> list_ex is_legend_cmd ax))
            \<and> (1 < length converted \<longrightarrow>
                 (\<exists>data_labels pre ts ms.
                     resolve_labels (arg_data_labels a) (length converted) = Inr data_labels
                   \<and> length data_labels = length converted
                   \<and> length converted \<le> length (resolve_colors (arg_colors a) (length converted))
                   \<and> axes \<noteq> []
                   \<and> axes ! 0 =
                       pre @ map (\<lambda>i. LegendEntry (data_labels ! i)
                                        (resolve_colors (arg_colors a) (length converted) ! i) ms)
                               [0..<length converted]
                           @ [Legend ts]
                   \<and> \<not> list_ex is_legend_cmd pre
                   \<and> (\<forall>ax \<in> set (tl axes). \<not> list_ex is_legend_cmd ax))))"
proof (rule conjI)
  show "check_point_estimate (arg_point_estimate a) = Inr ()
            \<and> (\<exists>ls. resolve_labels (arg_data_labels a) (length converted) = Inr ls)
          \<longrightarrow> (\<exists>rest. fst (densityplot env a) =
                 map EvConvert [0..<length converted] @ map EvBurnIn [0..<length converted]
                 @ map EvVarIter [0..<length converted]
                 @ [EvScaleText, EvSubplots (card (plotter_label env ` set (concat to_plot)))]
                 @ rest)"
  proof (rule impI)
    assume "check_point_estimate (arg_point_estimate a) = Inr ()
              \<and> (\<exists>ls. resolve_labels (arg_data_labels a) (length converted) = Inr ls)"
    then obtain ls where pe: "check_point_estimate (arg_point_estimate a) = Inr ()"
      and lb: "resolve_labels (arg_data_labels a) (length converted) = Inr ls" by blast
    from densityplot_allocates [OF c pe lb tp]
    show "\<exists>rest. fst (densityplot env a) =
                   map EvConvert [0..<length converted] @ map EvBurnIn [0..<length converted]
                   @ map EvVarIter [0..<length converted]
                   @ [EvScaleText, EvSubplots (card (plotter_label env ` set (concat to_plot)))]
                   @ rest" .
  qed
next
  show "\<forall>axes. snd (densityplot env a) = Inr axes \<longrightarrow>
            length axes = card (plotter_label env ` set (concat to_plot))
            \<and> (length converted \<le> 1 \<longrightarrow> (\<forall>ax \<in> set axes. \<not> list_ex is_legend_cmd ax))
            \<and> (1 < length converted \<longrightarrow>
                 (\<exists>data_labels pre ts ms.
                     resolve_labels (arg_data_labels a) (length converted) = Inr data_labels
                   \<and> length data_labels = length converted
                   \<and> length converted \<le> length (resolve_colors (arg_colors a) (length converted))
                   \<and> axes \<noteq> []
                   \<and> axes ! 0 =
                       pre @ map (\<lambda>i. LegendEntry (data_labels ! i)
                                        (resolve_colors (arg_colors a) (length converted) ! i) ms)
                               [0..<length converted]
                           @ [Legend ts]
                   \<and> \<not> list_ex is_legend_cmd pre
                   \<and> (\<forall>ax \<in> set (tl axes). \<not> list_ex is_legend_cmd ax)))"
  proof (intro allI impI)
    fix axes
    assume ok: "snd (densityplot env a) = Inr axes"
    from densityplot_returned [OF c tp ok]
    show "length axes = card (plotter_label env ` set (concat to_plot))
            \<and> (length converted \<le> 1 \<longrightarrow> (\<forall>ax \<in> set axes. \<not> list_ex is_legend_cmd ax))
            \<and> (1 < length converted \<longrightarrow>
                 (\<exists>data_labels pre ts ms.
                     resolve_labels (arg_data_labels a) (length converted) = Inr data_labels
                   \<and> length data_labels = length converted
                   \<and> length converted \<le> length (resolve_colors (arg_colors a) (length converted))
                   \<and> axes \<noteq> []
                   \<and> axes ! 0 =
                       pre @ map (\<lambda>i. LegendEntry (data_labels ! i)
                                        (resolve_colors (arg_colors a) (length converted) ! i) ms)
                               [0..<length converted]
                           @ [Legend ts]
                   \<and> \<not> list_ex is_legend_cmd pre
                   \<and> (\<forall>ax \<in> set (tl axes). \<not> list_ex is_legend_cmd ax)))" .
  qed
qed

theorem C5_witness:
  "snd (densityplot env_demo (default_args (Many [ds_mu, ds_mu]))) =
     Inr [[Line [1, 2, 3] [2, 3, 2] ''C0'' None 2,
           Line [1, 1] [- 2 / 100, 2] ''C0'' (Some ''-'') 2,
           Line [3, 3] [- 2 / 100, 2] ''C0'' (Some ''-'') 2,
           Marker 2 (- 0.001) ''o'' ''C0'' 8, SetYticks [], SetTitle ''mu'',
           HideSpine ''left'', HideSpine ''right'', HideSpine ''top'', TickParams 14,
           Line [1, 2, 3] [2, 3, 2] ''C1'' None 2,
           Line [1, 1] [- 2 / 100, 2] ''C1'' (Some ''-'') 2,
           Line [3, 3] [- 2 / 100, 2] ''C1'' (Some ''-'') 2,
           Marker 2 (- 0.001) ''o'' ''C1'' 8, SetYticks [], SetTitle ''mu'',
           HideSpine ''left'', HideSpine ''right'', HideSpine ''top'', TickParams 14,
           LegendEntry ''0'' ''C0'' 8, LegendEntry ''1'' ''C1'' 8, Legend 14]]
   \<and> card (plotter_label env_demo `
            set (concat [[(''mu'', [], FloatArr [1, 2, 3])], [(''mu'', [], FloatArr [1, 2, 3])]])) = 1"
proof -
  let ?a = "default_args (Many [ds_mu, ds_mu]) :: dataset args"
  let ?panel = "[Line [1, 2, 3] [2, 3, 2] ''C0'' None 2,
           Line [1, 1] [- 2 / 100, 2] ''C0'' (Some ''-'') 2,
           Line [3, 3] [- 2 / 100, 2] ''C0'' (Some ''-'') 2,
           Marker 2 (- 0.001) ''o'' ''C0'' 8, SetYticks [], SetTitle ''mu'',
           HideSpine ''left'', HideSpine ''right'', HideSpine ''top'', TickParams 14,
           Line [1, 2, 3] [2, 3, 2] ''C1'' None 2,
           Line [1, 1] [- 2 / 100, 2] ''C1'' (Some ''-'') 2,
           Line [3, 3] [- 2 / 100, 2] ''C1'' (Some ''-'') 2,
           Marker 2 (- 0.001) ''o'' ''C1'' 8, SetYticks [], SetTitle ''mu'',
           HideSpine ''left'', HideSpine ''right'', HideSpine ''top'', TickParams 14,
           LegendEntry ''0'' ''C0'' 8, LegendEntry ''1'' ''C1'' 8, Legend 14]"
  have h1: "snd (convert_all env_demo (arg_data ?a)) = Inr [ds_mu, ds_mu]" by code_simp
  have h2: "snd (collect_plotters env_demo 0 (map (\<lambda>d. burn_in d (arg_skip_first ?a)) [ds_mu, ds_mu])
                    (arg_var_names ?a)) =
            Inr [[(''mu'', [], FloatArr [1, 2, 3])], [(''mu'', [], FloatArr [1, 2, 3])]]"
    by code_simp
  have h3: "snd (densityplot env_demo ?a) = Inr [?panel]" by code_simp
  from C5_panels_and_legend [OF h1 h2] h3
  have "length [?panel] = card (plotter_label env_demo `
            set (concat [[(''mu'', [], FloatArr [1, 2, 3])], [(''mu'', [], FloatArr [1, 2, 3])]]))"
    by blast
  then have "card (plotter_label env_demo `
            set (concat [[(''mu'', [], FloatArr [1, 2, 3])], [(''mu'', [], FloatArr [1, 2, 3])]])) = 1"
    by simp
  with h3 show ?thesis by blast
qed

lemma render_plotters_short:
  assumes "\<not> m < length colors" and "ps \<noteq> []"
  shows "render_plotters env a colors axis_map ts lw ms m ps axes = ([], Inl IndexError)"
  using assms by (cases ps) (auto simp: py_index_def Let_def split: prod.splits)

lemma render_plotters_trace:
  assumes "m < length colors"
    and "\<forall>p \<in> set ps. axis_map (plotter_label env p) \<noteq> None"
    and "render_plotters env a colors axis_map ts lw ms m ps axes = (evs, r)"
  shows "(\<forall>ev \<in> set evs. \<exists>l. ev = EvRender m l)
       \<and> (\<forall>e. r = Inl e \<longrightarrow>
             (\<exists>vs l c ax. d_helper env vs l c (arg_bw a) ts lw ms (arg_alpha a)
                             (arg_point_estimate a) (arg_hpd_markers a) (arg_outline a)
                             (arg_shade a) ax = Inl e))"
  using assms(2,3)
proof (induction ps arbitrary: axes evs r)
  case Nil
  then show ?case by (auto simp: ret_def)
next
  case (Cons p ps)
  obtain var_name selection vs where p: "p = (var_name, selection, vs)" by (cases p) auto
  let ?label = "make_label env var_name selection"
  from assms(1) have col: "py_index colors m = Inr (colors ! m)" by (simp add: py_index_def)
  from Cons.prems(1) p obtain k where k: "axis_map ?label = Some k"
    by (auto simp: plotter_label_def)
  let ?d = "d_helper env vs ?label (colors ! m) (arg_bw a) ts lw ms (arg_alpha a)
              (arg_point_estimate a) (arg_hpd_markers a) (arg_outline a) (arg_shade a) (axes ! k)"
  show ?case
  proof (cases ?d)
    case (Inl e)
    with Cons.prems(2) p col k have "evs = [EvRender m ?label]" "r = Inl e"
      by (simp_all add: Let_def)
    with Inl show ?thesis by auto
  next
    case (Inr ax')
    obtain evs' r' where rec: "render_plotters env a colors axis_map ts lw ms m ps (axes[k := ax']) = (evs', r')"
      by fastforce
    with Cons.prems(2) p col k Inr have e: "evs = EvRender m ?label # evs'" "r = r'"
      by (simp_all add: Let_def)
    from Cons.prems(1) have "\<forall>p \<in> set ps. axis_map (plotter_label env p) \<noteq> None" by simp
    from Cons.IH [OF this rec] e show ?thesis by auto
  qed
qed

lemma render_all_short:
  assumes "\<exists>j < length tps. length colors \<le> m + j \<and> tps ! j \<noteq> []"
    and "\<forall>p \<in> set (concat tps). axis_map (plotter_label env p) \<noteq> None"
  shows "\<exists>rs e. render_all env a colors axis_map ts lw ms m tps axes = (rs, Inl e)
       \<and> (\<forall>ev \<in> set rs. \<exists>m' l. ev = EvRender m' l \<and> m' < length colors)
       \<and> (e = IndexError \<or>
            (\<exists>vs l c ax. d_helper env vs l c (arg_bw a) ts lw ms (arg_alpha a)
                            (arg_point_estimate a) (arg_hpd_markers a) (arg_outline a)
                            (arg_shade a) ax = Inl e))"
  using assms
proof (induction tps arbitrary: m axes)
  case Nil
  then show ?case by simp
next
  case (Cons ps tps)
  let ?D = "\<lambda>e. \<exists>vs l c ax. d_helper env vs l c (arg_bw a) ts lw ms (arg_alpha a)
                            (arg_point_estimate a) (arg_hpd_markers a) (arg_outline a)
                            (arg_shade a) ax = Inl e"
  from Cons.prems(2) have cov: "\<forall>p \<in> set ps. axis_map (plotter_label env p) \<noteq> None"
    and cov': "\<forall>p \<in> set (concat tps). axis_map (plotter_label env p) \<noteq> None" by simp_all
  from Cons.prems(1) obtain j where j: "j < length (ps # tps)" "length colors \<le> m + j" "(ps # tps) ! j \<noteq> []"
    by blast
  have next_ok: "\<exists>j' < length tps. length colors \<le> Suc m + j' \<and> tps ! j' \<noteq> []" if "j \<noteq> 0"
  proof -
    from that obtain j' where "j = Suc j'" by (cases j) auto
    with j show ?thesis by auto
  qed
  show ?case
  proof (cases "m < length colors")
    case True
    with j have j0: "j \<noteq> 0" by auto
    obtain e1 r1 where r1: "render_plotters env a colors axis_map ts lw ms m ps axes = (e1, r1)"
      by fastforce
    from render_plotters_trace [OF True cov r1] have
      tr: "\<forall>ev \<in> set e1. \<exists>l. ev = EvRender m l" and
      er: "\<forall>e. r1 = Inl e \<longrightarrow> ?D e" by blast+
    show ?thesis
    proof (cases r1)
      case (Inl e)
      with r1 have "render_all env a colors axis_map ts lw ms m (ps # tps) axes = (e1, Inl e)"
        by simp
      moreover from tr True have "\<forall>ev \<in> set e1. \<exists>m' l. ev = EvRender m' l \<and> m' < length colors"
        by blast
      moreover from er Inl have "?D e" by blast
      ultimately show ?thesis by blast
    next
      case (Inr axes1)
      from Cons.IH [OF next_ok [OF j0] cov', of axes1] obtain rs e where
        ih: "render_all env a colors axis_map ts lw ms (Suc m) tps axes1 = (rs, Inl e)"
            "\<forall>ev \<in> set rs. \<exists>m' l. ev = EvRender m' l \<and> m' < length colors"
            "e = IndexError \<or> ?D e" by blast
      from r1 Inr ih(1) have "render_all env a colors axis_map ts lw ms m (ps # tps) axes = (e1 @ rs, Inl e)"
        by simp
      moreover from tr True ih(2) have "\<forall>ev \<in> set (e1 @ rs). \<exists>m' l. ev = EvRender m' l \<and> m' < length colors"
        by auto
      ultimately show ?thesis using ih(3) by blast
    qed
  next
    case False
    show ?thesis
    proof (cases "ps = []")
      case True
      with j have j0: "j \<noteq> 0" by (cases j) auto
      from Cons.IH [OF next_ok [OF j0] cov', of axes] obtain rs e where
        ih: "render_all env a colors axis_map ts lw ms (Suc m) tps axes = (rs, Inl e)"
            "\<forall>ev \<in> set rs. \<exists>m' l. ev = EvRender m' l \<and> m' < length colors"
            "e = IndexError \<or> ?D e" by blast
      from True ih(1) have "render_all env a colors axis_map ts lw ms m (ps # tps) axes = (rs, Inl e)"
        by (simp add: ret_def)
      with ih(2,3) show ?thesis by blast
    next
      case ne: False
      from render_plotters_short [OF False ne, of env a axis_map ts lw ms axes]
      have "render_all env a colors axis_map ts lw ms m (ps # tps) axes = ([], Inl IndexError)"
        by simp
      then show ?thesis by auto
    qed
  qed
qed

text \<open>
  Claim C10, as amended. An explicit \<^verbatim>\<open>colors\<close> list \<open>cs\<close> is taken as it is, and
  \<^verbatim>\<open>colors[m_idx]\<close> is in bounds exactly for \<open>m_idx < len(cs)\<close>. When the inputs convert, the
  point estimate and the labels are valid and the variables are iterated, no check
  rejects a list shorter than the number of datasets: the figure and its subplots are
  allocated first. If a dataset at a position from \<open>len(cs)\<close> on yields a variable
  instance, the call does not return: it raises inside the rendering loop, after the
  figure was allocated, having rendered only for datasets before position \<open>len(cs)\<close> and
  before any legend or layout call; the exception is \<^verbatim>\<open>IndexError\<close>, or the one an earlier
  call of \<^verbatim>\<open>_d_helper\<close> raised.
\<close>

theorem C10_short_colors_list:
  assumes cl: "arg_colors a = ColorList cs"
    and c: "snd (convert_all env (arg_data a)) = Inr converted"
    and pe: "check_point_estimate (arg_point_estimate a) = Inr ()"
    and lb: "resolve_labels (arg_data_labels a) (length converted) = Inr data_labels"
    and tp: "snd (collect_plotters env 0 (map (\<lambda>d. burn_in d (arg_skip_first a)) converted)
                    (arg_var_names a)) = Inr to_plot"
    and short: "\<exists>j < length to_plot. length cs \<le> j \<and> to_plot ! j \<noteq> []"
  shows "length cs < length converted
       \<and> (\<forall>m. (\<exists>color. py_index cs m = Inr color) \<longleftrightarrow> m < length cs)
       \<and> (\<exists>rs e. densityplot env a =
              (map EvConvert [0..<length converted] @ map EvBurnIn [0..<length converted]
               @ map EvVarIter [0..<length converted]
               @ [EvScaleText, EvSubplots (card (plotter_label env ` set (concat to_plot)))] @ rs,
               Inl e)
            \<and> (\<forall>ev \<in> set rs. \<exists>m l. ev = EvRender m l \<and> m < length cs)
            \<and> (e = IndexError \<or>
                 (\<exists>vs l color ts lw ms ax.
                     d_helper env vs l color (arg_bw a) ts lw ms (arg_alpha a)
                       (arg_point_estimate a) (arg_hpd_markers a) (arg_outline a)
                       (arg_shade a) ax = Inl e)))"
proof -
  let ?n = "length converted"
  let ?all = "label_set env to_plot"
  let ?amap = "map_of (zip ?all [0..<length ?all])"
  obtain vs where tp': "collect_plotters env 0 (map (\<lambda>d. burn_in d (arg_skip_first a)) converted)
                    (arg_var_names a) = (vs, Inr to_plot)"
    using tp by (cases "collect_plotters env 0 (map (\<lambda>d. burn_in d (arg_skip_first a)) converted)
                    (arg_var_names a)") simp
  from collect_plotters_ok [OF this] have ltp: "length to_plot = ?n" by simp
  with short have 1: "length cs < ?n" by auto
  have 2: "\<forall>m. (\<exists>color. py_index cs m = Inr color) \<longleftrightarrow> m < length cs"
    by (simp add: py_index_def)
  obtain ts lw ms where
    sc: "scale_text env (case arg_figsize a of
                           None \<Rightarrow> (6, real (length ?all * 2))
                         | Some fs \<Rightarrow> fs) (arg_textsize a) = (ts, lw, ms)"
    by (metis prod_cases3)
  note nf = densityplot_pipeline [OF c pe lb tp sc, unfolded Let_def]
  have cov: "\<forall>p \<in> set (concat to_plot). ?amap (plotter_label env p) \<noteq> None"
  proof
    fix p assume "p \<in> set (concat to_plot)"
    then have "plotter_label env p \<in> set ?all" unfolding label_set_set by blast
    from axis_map_Some [OF this] show "?amap (plotter_label env p) \<noteq> None"
      by (metis option.discI)
  qed
  from short have short': "\<exists>j < length to_plot. length cs \<le> 0 + j \<and> to_plot ! j \<noteq> []" by simp
  from render_all_short [OF short' cov, of a ts lw ms "replicate (length ?all) []"]
  obtain rs e where
    ra: "render_all env a cs ?amap ts lw ms 0 to_plot (replicate (length ?all) []) = (rs, Inl e)" and
    tr: "\<forall>ev \<in> set rs. \<exists>m l. ev = EvRender m l \<and> m < length cs" and
    er: "e = IndexError \<or>
           (\<exists>vs l color ax. d_helper env vs l color (arg_bw a) ts lw ms (arg_alpha a)
              (arg_point_estimate a) (arg_hpd_markers a) (arg_outline a) (arg_shade a) ax = Inl e)"
    by blast
  have rc: "resolve_colors (arg_colors a) ?n = cs" by (simp add: cl resolve_colors_def)
  from nf ra rc have "densityplot env a =
              (map EvConvert [0..<?n] @ map EvBurnIn [0..<?n] @ map EvVarIter [0..<?n]
               @ [EvScaleText, EvSubplots (length ?all)] @ rs,
               Inl e)"
    by simp
  then have dp: "densityplot env a =
              (map EvConvert [0..<?n] @ map EvBurnIn [0..<?n] @ map EvVarIter [0..<?n]
               @ [EvScaleText, EvSubplots (card (plotter_label env ` set (concat to_plot)))] @ rs,
               Inl e)"
    by (simp only: label_set_length)
  from er have er': "e = IndexError \<or>
                 (\<exists>vs l color ts lw ms ax.
                     d_helper env vs l color (arg_bw a) ts lw ms (arg_alpha a)
                       (arg_point_estimate a) (arg_hpd_markers a) (arg_outline a)
                       (arg_shade a) ax = Inl e)" by blast
  from 1 2 dp tr er' show ?thesis by blast
qed

theorem C10_witness:
  "densityplot env_demo ((default_args (Many [ds_mu, ds_mu]))\<lparr>arg_colors := ColorList [''r'']\<rparr>) =
     ([EvConvert 0, EvConvert 1, EvBurnIn 0, EvBurnIn 1, EvVarIter 0, EvVarIter 1,
       EvScaleText, EvSubplots 1, EvRender 0 ''mu''], Inl IndexError)
   \<and> length [''r''] < length [ds_mu, ds_mu]"
proof -
  let ?a = "(default_args (Many [ds_mu, ds_mu]))\<lparr>arg_colors := ColorList [''r'']\<rparr> :: dataset args"
  let ?tp = "[[(''mu'', [], FloatArr [1, 2, 3])], [(''mu'', [], FloatArr [1, 2, 3])]] :: plotter list list"
  have h1: "arg_colors ?a = ColorList [''r'']" by simp
  have h2: "snd (convert_all env_demo (arg_data ?a)) = Inr [ds_mu, ds_mu]" by code_simp
  have h3: "check_point_estimate (arg_point_estimate ?a) = Inr ()" by code_simp
  have h4: "resolve_labels (arg_data_labels ?a) (length [ds_mu, ds_mu]) = Inr [''0'', ''1'']"
    by code_simp
  have h5: "snd (collect_plotters env_demo 0 (map (\<lambda>d. burn_in d (arg_skip_first ?a)) [ds_mu, ds_mu])
                    (arg_var_names ?a)) = Inr ?tp"
    by code_simp
  have h6: "\<exists>j < length ?tp. length [''r''] \<le> j \<and> ?tp ! j \<noteq> []"
    by (rule exI [of _ 1]) simp
  have run: "densityplot env_demo ?a =
     ([EvConvert 0, EvConvert 1, EvBurnIn 0, EvBurnIn 1, EvVarIter 0, EvVarIter 1,
       EvScaleText, EvSubplots 1, EvRender 0 ''mu''], Inl IndexError)"
    by code_simp
  from C10_short_colors_list [OF h1 h2 h3 h4 h5 h6]
  have "length [''r''] < length [ds_mu, ds_mu]" by blast
  with run show ?thesis by blast
qed

text \<open>
  The claim as written has every call with a shorter list fail with an out-of-range
  access during the per-dataset rendering. When the dataset beyond the list yields no
  variable instance, the rendering loop never looks its colour up and completes; the
  \<^verbatim>\<open>IndexError\<close> comes from the legend loop of line 111, after the first legend entry. When
  \<^verbatim>\<open>hpd\<close> raises for the first dataset, the call ends with that exception and no index
  is ever out of range.
\<close>

theorem C10_counterexample:
  "densityplot env_demo ((default_args (Many [ds_mu, []]))\<lparr>arg_colors := ColorList [''r'']\<rparr>) =
     ([EvConvert 0, EvConvert 1, EvBurnIn 0, EvBurnIn 1, EvVarIter 0, EvVarIter 1,
       EvScaleText, EvSubplots 1, EvRender 0 ''mu'', EvLegendEntry 0], Inl IndexError)
   \<and> densityplot env_hpd_fails ((default_args (Many [ds_mu, ds_mu]))\<lparr>arg_colors := ColorList [''r'']\<rparr>) =
     ([EvConvert 0, EvConvert 1, EvBurnIn 0, EvBurnIn 1, EvVarIter 0, EvVarIter 1,
       EvScaleText, EvSubplots 1, EvRender 0 ''mu''], Inl (Raised ''hpd failed''))"
  by code_simp

end
